theory Spec2Isabelle
  imports Complex_Main "HOL-Library.AList"
begin

section \<open>Python values\<close>

text \<open>
  A Python float is an IEEE double: a finite value (a rational number), one of the two
  infinities, or not-a-number. The classifiers only compare coordinates with integer
  literals, which is exact on doubles, so a finite double is modelled by its rational
  value. Negative zero is identified with zero.
\<close>

datatype pyfloat = NaN | NInf | Fin rat | PInf

text \<open>The comparisons \<open><=\<close> and \<open><\<close> of IEEE doubles: every comparison with NaN is false.\<close>

fun fle :: "pyfloat \<Rightarrow> pyfloat \<Rightarrow> bool" where
  "fle NaN y = False"
| "fle x NaN = False"
| "fle NInf y = True"
| "fle x PInf = True"
| "fle (Fin a) (Fin b) = (a \<le> b)"
| "fle x y = False"

fun flt :: "pyfloat \<Rightarrow> pyfloat \<Rightarrow> bool" where
  "flt NaN y = False"
| "flt x NaN = False"
| "flt PInf y = False"
| "flt x NInf = False"
| "flt (Fin a) (Fin b) = (a < b)"
| "flt x y = True"

text \<open>An integer literal of the source, as the double it is compared with.\<close>

definition lit :: "int \<Rightarrow> pyfloat" where
  "lit n = Fin (of_int n)"

text \<open>The chained comparison \<open>a <= x <= b\<close>, that is \<open>a <= x and x <= b\<close>.\<close>

definition between :: "int \<Rightarrow> pyfloat \<Rightarrow> int \<Rightarrow> bool" where
  "between a x b = (fle (lit a) x \<and> fle x (lit b))"

text \<open>\<open>x >= n\<close>, \<open>x <= n\<close> and \<open>abs(x) > n\<close> for an integer literal \<open>n\<close>.\<close>

definition fge_lit :: "pyfloat \<Rightarrow> int \<Rightarrow> bool" where
  "fge_lit x n = fle (lit n) x"

definition fle_lit :: "pyfloat \<Rightarrow> int \<Rightarrow> bool" where
  "fle_lit x n = fle x (lit n)"

fun fabs :: "pyfloat \<Rightarrow> pyfloat" where
  "fabs NaN = NaN"
| "fabs NInf = PInf"
| "fabs PInf = PInf"
| "fabs (Fin a) = Fin \<bar>a\<bar>"

definition fabs_gt_lit :: "pyfloat \<Rightarrow> int \<Rightarrow> bool" where
  "fabs_gt_lit x n = flt (lit n) (fabs x)"

section \<open>CountryDetector: the geographical rules (add\_country\_advanced.py)\<close>

text \<open>\<open>CountryDetector.is_major_sea_or_lake\<close>.\<close>

definition is_major_sea_or_lake :: "pyfloat \<Rightarrow> pyfloat \<Rightarrow> bool" where
  "is_major_sea_or_lake lat lon =
     (if between 30 lat 46 \<and> between (-6) lon 37 then True
      else if between 40 lat 48 \<and> between 27 lon 42 then True
      else if between 36 lat 47 \<and> between 46 lon 55 then True
      else if between 41 lat 49 \<and> between (-93) lon (-76) then True
      else False)"

text \<open>
  \<open>CountryDetector.is_in_ocean\<close>: the loop over \<open>land_regions\<close> returns at the first
  region that contains the point.
\<close>

type_synonym box = "int \<times> int \<times> int \<times> int"

definition land_regions :: "box list" where
  "land_regions =
     [(10, 85, -170, -50),
      (-60, 15, -85, -30),
      (35, 75, -15, 45),
      (-15, 80, 25, 180),
      (-40, 40, -20, 55),
      (-50, -10, 110, 180)]"

fun is_in_ocean_loop :: "box list \<Rightarrow> pyfloat \<Rightarrow> pyfloat \<Rightarrow> bool" where
  "is_in_ocean_loop [] lat lon = True"
| "is_in_ocean_loop ((lat_min, lat_max, lon_min, lon_max) # rest) lat lon =
     (if between lat_min lat lat_max \<and> between lon_min lon lon_max
      then (if is_major_sea_or_lake lat lon then True else False)
      else is_in_ocean_loop rest lat lon)"

definition is_in_ocean :: "pyfloat \<Rightarrow> pyfloat \<Rightarrow> bool" where
  "is_in_ocean lat lon = is_in_ocean_loop land_regions lat lon"

text \<open>\<open>CountryDetector.get_specific_ocean_region\<close>.\<close>

definition get_specific_ocean_region :: "pyfloat \<Rightarrow> pyfloat \<Rightarrow> string" where
  "get_specific_ocean_region lat lon =
     (if between 30 lat 46 \<and> between (-6) lon 37 then ''Mediterranean Sea''
      else if between 40 lat 48 \<and> between 27 lon 42 then ''Black Sea''
      else if between 36 lat 47 \<and> between 46 lon 55 then ''Caspian Sea''
      else if between 120 lon 180 \<or> between (-180) lon (-100) then
        (if fge_lit lat 40 then ''North Pacific Ocean''
         else if fle_lit lat (-40) then ''South Pacific Ocean''
         else if between (-10) lat 10 then ''Equatorial Pacific Ocean''
         else ''Pacific Ocean'')
      else if between (-80) lon 20 then
        (if fge_lit lat 40 then ''North Atlantic Ocean''
         else if fle_lit lat (-40) then ''South Atlantic Ocean''
         else if between (-10) lat 10 then ''Equatorial Atlantic Ocean''
         else ''Atlantic Ocean'')
      else if between 20 lon 120 \<and> between (-50) lat 30 then ''Indian Ocean''
      else if fge_lit lat 70 then ''Arctic Ocean''
      else if fle_lit lat (-50) then ''Southern Ocean''
      else ''Ocean'')"

text \<open>\<open>CountryDetector.get_regional_fallback\<close>.\<close>

definition get_regional_fallback :: "pyfloat \<Rightarrow> pyfloat \<Rightarrow> string" where
  "get_regional_fallback lat lon =
     (if between 10 lat 25 \<and> between (-85) lon (-60) then ''Caribbean Region''
      else if between 7 lat 18 \<and> between (-92) lon (-77) then ''Central America''
      else if between 12 lat 42 \<and> between 25 lon 65 then ''Middle East''
      else if between (-15) lat 25 \<and> between 90 lon 145 then ''Southeast Asia''
      else if between 55 lat 75 \<and> between (-15) lon 45 then ''Northern Europe''
      else if between 45 lat 70 \<and> between 15 lon 50 then ''Eastern Europe''
      else if between 40 lat 60 \<and> between (-15) lon 20 then ''Western Europe''
      else if between 15 lat 40 \<and> between (-20) lon 40 then ''North Africa''
      else if between (-15) lat 20 \<and> between 25 lon 55 then ''East Africa''
      else if between 0 lat 25 \<and> between (-25) lon 20 then ''West Africa''
      else if between (-40) lat (-15) \<and> between 10 lon 40 then ''Southern Africa''
      else if between 35 lat 55 \<and> between 45 lon 85 then ''Central Asia''
      else if fle_lit lat (-60) then ''Antarctica''
      else if fge_lit lat 75 then ''Arctic Region''
      else ''Unknown Region'')"

text \<open>\<open>CountryDetector.get_country_from_geography\<close>.\<close>

definition CountryDetector_get_country_from_geography :: "pyfloat \<Rightarrow> pyfloat \<Rightarrow> string" where
  "CountryDetector_get_country_from_geography lat lon =
     (if (between 25 lat 49 \<and> between (-125) lon (-66)) \<or>
         (between 55 lat 72 \<and> between (-168) lon (-141)) \<or>
         (between 18 lat 23 \<and> between (-162) lon (-154)) then ''United States''
      else if between 42 lat 84 \<and> between (-141) lon (-52) then ''Canada''
      else if between 14 lat 33 \<and> between (-118) lon (-86) then ''Mexico''
      else if between 24 lat 46 \<and> between 122 lon 146 then ''Japan''
      else if between (-11) lat 6 \<and> between 95 lon 141 then ''Indonesia''
      else if between 5 lat 21 \<and> between 116 lon 127 then ''Philippines''
      else if between (-56) lat (-17) \<and> between (-76) lon (-66) then ''Chile''
      else if between (-47) lat (-34) \<and> between 166 lon 179 then ''New Zealand''
      else if between 36 lat 42 \<and> between 26 lon 45 then ''Turkey''
      else if between 36 lat 47 \<and> between 6 lon 19 then ''Italy''
      else if between 34 lat 42 \<and> between 19 lon 30 then ''Greece''
      else if between 25 lat 40 \<and> between 44 lon 64 then ''Iran''
      else if between 18 lat 54 \<and> between 73 lon 135 then ''China''
      else if between 41 lat 82 \<and> between 19 lon 180 then ''Russia''
      else if between 6 lat 38 \<and> between 68 lon 98 then ''India''
      else if between (-44) lat (-10) \<and> between 112 lon 154 then ''Australia''
      else if between (-12) lat (-1) \<and> between 140 lon 160 then ''Papua New Guinea''
      else if between (-19) lat 0 \<and> between (-82) lon (-68) then ''Peru''
      else if between (-5) lat 2 \<and> between (-82) lon (-75) then ''Ecuador''
      else if between (-5) lat 13 \<and> between (-80) lon (-66) then ''Colombia''
      else if between 0 lat 13 \<and> between (-74) lon (-59) then ''Venezuela''
      else if between (-34) lat 6 \<and> between (-75) lon (-30) then ''Brazil''
      else if between (-55) lat (-21) \<and> between (-74) lon (-53) then ''Argentina''
      else if is_in_ocean lat lon then get_specific_ocean_region lat lon
      else get_regional_fallback lat lon)"

text \<open>
  The country rules of \<open>get_country_from_geography\<close> read as a table, in the order of
  their declaration: each rule is a label with the boxes
  \<open>(lat_min, lat_max, lon_min, lon_max)\<close> whose union it tests. \<open>first_match\<close> is the
  reading of the specification: the label of the first rule whose box contains the point.
\<close>

fun box_contains :: "box \<Rightarrow> pyfloat \<Rightarrow> pyfloat \<Rightarrow> bool" where
  "box_contains (lat_min, lat_max, lon_min, lon_max) lat lon =
     (between lat_min lat lat_max \<and> between lon_min lon lon_max)"

type_synonym rule = "string \<times> box list"

fun rule_matches :: "rule \<Rightarrow> pyfloat \<Rightarrow> pyfloat \<Rightarrow> bool" where
  "rule_matches (label, boxes) lat lon = list_ex (\<lambda>b. box_contains b lat lon) boxes"

fun first_match :: "rule list \<Rightarrow> pyfloat \<Rightarrow> pyfloat \<Rightarrow> string \<Rightarrow> string" where
  "first_match [] lat lon other = other"
| "first_match (r # rs) lat lon other =
     (if rule_matches r lat lon then fst r else first_match rs lat lon other)"

definition country_rules :: "rule list" where
  "country_rules =
     [(''United States'', [(25, 49, -125, -66), (55, 72, -168, -141), (18, 23, -162, -154)]),
      (''Canada'', [(42, 84, -141, -52)]),
      (''Mexico'', [(14, 33, -118, -86)]),
      (''Japan'', [(24, 46, 122, 146)]),
      (''Indonesia'', [(-11, 6, 95, 141)]),
      (''Philippines'', [(5, 21, 116, 127)]),
      (''Chile'', [(-56, -17, -76, -66)]),
      (''New Zealand'', [(-47, -34, 166, 179)]),
      (''Turkey'', [(36, 42, 26, 45)]),
      (''Italy'', [(36, 47, 6, 19)]),
      (''Greece'', [(34, 42, 19, 30)]),
      (''Iran'', [(25, 40, 44, 64)]),
      (''China'', [(18, 54, 73, 135)]),
      (''Russia'', [(41, 82, 19, 180)]),
      (''India'', [(6, 38, 68, 98)]),
      (''Australia'', [(-44, -10, 112, 154)]),
      (''Papua New Guinea'', [(-12, -1, 140, 160)]),
      (''Peru'', [(-19, 0, -82, -68)]),
      (''Ecuador'', [(-5, 2, -82, -75)]),
      (''Colombia'', [(-5, 13, -80, -66)]),
      (''Venezuela'', [(0, 13, -74, -59)]),
      (''Brazil'', [(-34, 6, -75, -30)]),
      (''Argentina'', [(-55, -21, -74, -53)])]"

section \<open>ComprehensiveCountryDetector: the geographical rules
  (comprehensive\_country\_detector.py)\<close>

text \<open>\<open>ComprehensiveCountryDetector.is_definitely_ocean\<close>.\<close>

definition is_definitely_ocean :: "pyfloat \<Rightarrow> pyfloat \<Rightarrow> bool" where
  "is_definitely_ocean lat lon =
     (if between (-40) lat 40 \<and> between 140 lon (-120) then True
      else if between (-40) lat 40 \<and> between (-50) lon (-10) then True
      else if between (-40) lat 20 \<and> between 60 lon 100 then True
      else if fle_lit lat (-50) then True
      else if fge_lit lat 75 then True
      else False)"

text \<open>\<open>ComprehensiveCountryDetector.get_ocean_name\<close>.\<close>

definition get_ocean_name :: "pyfloat \<Rightarrow> pyfloat \<Rightarrow> string" where
  "get_ocean_name lat lon =
     (if fle_lit lat (-50) then ''Southern Ocean''
      else if fge_lit lat 75 then ''Arctic Ocean''
      else if between 60 lon 100 \<and> fle_lit lat 20 then ''Indian Ocean''
      else if between (-50) lon (-10) then
        (if fge_lit lat 0 then ''North Atlantic Ocean'' else ''South Atlantic Ocean'')
      else if between 140 lon 180 \<or> between (-180) lon (-120) then
        (if fge_lit lat 0 then ''North Pacific Ocean'' else ''South Pacific Ocean'')
      else ''Ocean'')"

text \<open>\<open>ComprehensiveCountryDetector.get_high_confidence_country\<close>.\<close>

definition get_high_confidence_country :: "pyfloat \<Rightarrow> pyfloat \<Rightarrow> string" where
  "get_high_confidence_country lat lon =
     (if (between 25 lat 49 \<and> between (-125) lon (-66)) \<or>
         (between 55 lat 72 \<and> between (-168) lon (-141)) \<or>
         (between 18 lat 23 \<and> between (-162) lon (-154)) then ''United States''
      else if between 50 lat 84 \<and> between (-141) lon (-52) then ''Canada''
      else if between 50 lat 82 \<and> between 30 lon 180 then ''Russia''
      else if between 50 lat 82 \<and> between (-180) lon (-169) then ''Russia''
      else if between 20 lat 50 \<and> between 80 lon 130 then ''China''
      else if between (-44) lat (-10) \<and> between 112 lon 154 then ''Australia''
      else if between 24 lat 46 \<and> between 129 lon 146 then ''Japan''
      else if between (-8) lat 6 \<and> between 95 lon 141 then ''Indonesia''
      else if between (-34) lat 6 \<and> between (-75) lon (-34) then ''Brazil''
      else if is_definitely_ocean lat lon then get_ocean_name lat lon
      else ''Uncertain'')"

text \<open>\<open>ComprehensiveCountryDetector.get_regional_classification\<close>.\<close>

definition get_regional_classification :: "pyfloat \<Rightarrow> pyfloat \<Rightarrow> string" where
  "get_regional_classification lat lon =
     (if between 10 lat 25 \<and> between (-85) lon (-60) then ''Caribbean Region''
      else if between 7 lat 18 \<and> between (-92) lon (-77) then ''Central America''
      else if between 12 lat 42 \<and> between 25 lon 65 then ''Middle East''
      else if between (-15) lat 25 \<and> between 90 lon 145 then ''Southeast Asia''
      else if between 35 lat 75 \<and> between (-15) lon 45 then
        (if fge_lit lat 55 then ''Northern Europe''
         else if between 45 lat 55 then ''Central Europe''
         else ''Southern Europe'')
      else if between (-40) lat 40 \<and> between (-20) lon 55 then
        (if fge_lit lat 20 then ''Northern Africa''
         else if fge_lit lat 0 then ''Central Africa''
         else ''Southern Africa'')
      else if fle_lit lat (-60) then ''Antarctica''
      else if fge_lit lat 70 then ''Arctic Region''
      else if fabs_gt_lit lon 90 \<or> fabs_gt_lit lat 60 then get_ocean_name lat lon
      else ''Unknown Region'')"

text \<open>\<open>ComprehensiveCountryDetector.get_detailed_geographical_country\<close>.\<close>

definition get_detailed_geographical_country :: "pyfloat \<Rightarrow> pyfloat \<Rightarrow> string" where
  "get_detailed_geographical_country lat lon =
     (if between 14 lat 33 \<and> between (-118) lon (-86) then ''Mexico''
      else if between 5 lat 21 \<and> between 116 lon 127 then ''Philippines''
      else if between (-56) lat (-17) \<and> between (-76) lon (-66) then ''Chile''
      else if between (-19) lat 0 \<and> between (-82) lon (-68) then ''Peru''
      else if between (-55) lat (-21) \<and> between (-74) lon (-53) then ''Argentina''
      else if between 36 lat 42 \<and> between 26 lon 45 then ''Turkey''
      else if between 25 lat 40 \<and> between 44 lon 64 then ''Iran''
      else if between 6 lat 38 \<and> between 68 lon 98 then ''India''
      else if between (-47) lat (-34) \<and> between 166 lon 179 then ''New Zealand''
      else if between (-12) lat (-1) \<and> between 140 lon 160 then ''Papua New Guinea''
      else if between 36 lat 47 \<and> between 6 lon 19 then ''Italy''
      else if between 34 lat 42 \<and> between 19 lon 30 then ''Greece''
      else get_regional_classification lat lon)"

section \<open>Values, exceptions and the outside world\<close>

text \<open>
  A cell of the table or an argument of \<open>get_country_from_coordinates\<close>: \<open>None\<close>, a
  float, a string, or any other scalar object (one that \<open>float()\<close> rejects with
  \<open>TypeError\<close>).
\<close>

datatype pyval = PyNone | PyFloat pyfloat | PyStr string | PyObject

text \<open>\<open>pd.isna\<close> on a scalar.\<close>

fun isna :: "pyval \<Rightarrow> bool" where
  "isna PyNone = True"
| "isna (PyFloat NaN) = True"
| "isna v = False"

text \<open>
  The exceptions that matter to the handlers of the source. \<open>OtherException\<close> stands for
  any other subclass of \<open>Exception\<close>; \<open>KeyboardInterrupt\<close> derives from
  \<open>BaseException\<close> only, so \<open>except Exception\<close> does not catch it.
\<close>

datatype exc = GeocoderTimedOut | GeocoderServiceError | OtherException | KeyboardInterrupt

fun is_Exception :: "exc \<Rightarrow> bool" where
  "is_Exception KeyboardInterrupt = False"
| "is_Exception e = True"

text \<open>
  What \<open>geolocator.reverse\<close> returns: \<open>None\<close> or a location, of which the source reads
  \<open>location.raw.get('address')\<close>: absent, or a dictionary from field names to strings.
\<close>

type_synonym address = "(string \<times> string) list"

datatype location = Location (raw_address: "address option")

text \<open>
  A formatted coordinate \<open>f"{x:.3f}"\<close>: \<open>nan\<close>, \<open>inf\<close> or \<open>-inf\<close>, or a sign and the
  digits, kept as the number they spell (the magnitude scaled by the power of ten).
  The cache key is the pair of the two formatted coordinates.
\<close>

datatype fixed = FNan | FInf bool | FNum bool nat

type_synonym cache_key = "fixed \<times> fixed"

type_synonym cache = "(cache_key \<times> string option) list"

text \<open>
  What lies outside the two modules: the availability flags set by the imports, the
  geocoding service (its answer to the \<open>n\<close>-th call of \<open>reverse\<close>, which may raise),
  \<open>pycountry.countries.lookup\<close> (\<open>None\<close> for \<open>LookupError\<close>), \<open>float()\<close> on a string
  (\<open>None\<close> for \<open>ValueError\<close>), and the cache file found on disk.
\<close>

record env =
  GEOPY_AVAILABLE :: bool
  PYCOUNTRY_AVAILABLE :: bool
  reverse :: "nat \<Rightarrow> pyfloat \<Rightarrow> pyfloat \<Rightarrow> exc + location option"
  lookup :: "string \<Rightarrow> string option"
  float_of_str :: "string \<Rightarrow> pyfloat option"
  stored_cache :: "string \<Rightarrow> cache option"

text \<open>The effects of a run, in the order they happen.\<close>

datatype event =
    Sleep rat
  | Reverse pyfloat pyfloat
  | WriteCache string cache
  | ToCsv "(pyval \<times> pyval \<times> pyval) list"

text \<open>
  The fields of a detector object (\<open>cache_file\<close> exists in
  \<open>ComprehensiveCountryDetector\<close> only), with the effects performed so far.
\<close>

record detector =
  use_geocoding :: bool
  geocoding_cache :: cache
  cache_file :: "string option"
  effects :: "event list"

text \<open>Truthiness of a string or \<open>None\<close>, and Python's \<open>a or b\<close> on such values.\<close>

fun truthy :: "string option \<Rightarrow> bool" where
  "truthy None = False"
| "truthy (Some s) = (s \<noteq> [])"

definition py_or :: "string option \<Rightarrow> string option \<Rightarrow> string option" where
  "py_or a b = (if truthy a then a else b)"

text \<open>\<open>float(v)\<close> inside \<open>try ... except (ValueError, TypeError)\<close>: \<open>None\<close> when it raises.\<close>

fun to_float :: "env \<Rightarrow> pyval \<Rightarrow> pyfloat option" where
  "to_float e PyNone = None"
| "to_float e (PyFloat x) = Some x"
| "to_float e (PyStr s) = float_of_str e s"
| "to_float e PyObject = None"

text \<open>Rounding to the nearest integer, ties to even, as the float formatting does.\<close>

definition round_half_even :: "rat \<Rightarrow> int" where
  "round_half_even x =
     (let f = \<lfloor>x\<rfloor>; d = x - of_int f
      in if d < 1 / 2 then f
         else if 1 / 2 < d then f + 1
         else if even f then f else f + 1)"

fun format_fixed :: "nat \<Rightarrow> pyfloat \<Rightarrow> fixed" where
  "format_fixed digits NaN = FNan"
| "format_fixed digits NInf = FInf True"
| "format_fixed digits PInf = FInf False"
| "format_fixed digits (Fin x) = FNum (x < 0) (nat (round_half_even (\<bar>x\<bar> * 10 ^ digits)))"

definition do_sleep :: "rat \<Rightarrow> detector \<Rightarrow> detector" where
  "do_sleep seconds d = d\<lparr>effects := effects d @ [Sleep seconds]\<rparr>"

text \<open>One call of \<open>self.geolocator.reverse\<close>: the answer of the service and the logged call.\<close>

definition call_reverse ::
  "env \<Rightarrow> pyfloat \<Rightarrow> pyfloat \<Rightarrow> detector \<Rightarrow> (exc + location option) \<times> detector" where
  "call_reverse e lat lon d =
     (reverse e (length (filter (\<lambda>ev. case ev of Reverse a b \<Rightarrow> True | _ \<Rightarrow> False) (effects d)))
        lat lon,
      d\<lparr>effects := effects d @ [Reverse lat lon]\<rparr>)"

text \<open>
  The country field of an answer: \<open>None\<close> unless the location and its address are truthy;
  then \<open>address.get('country') or address.get('country_name') or
  address.get('country_code')\<close>.
\<close>

fun country_field :: "location option \<Rightarrow> string option" where
  "country_field None = None"
| "country_field (Some (Location None)) = None"
| "country_field (Some (Location (Some address))) =
     (if address = [] then None
      else py_or (py_or (map_of address ''country'') (map_of address ''country_name''))
             (map_of address ''country_code''))"

text \<open>The last two lines of \<open>get_country_with_geocoding\<close>: cache the failure.\<close>

definition cache_failure :: "cache_key \<Rightarrow> detector \<Rightarrow> (exc + string option) \<times> detector" where
  "cache_failure k d =
     (Inr None, d\<lparr>geocoding_cache := AList.update k None (geocoding_cache d)\<rparr>)"

section \<open>CountryDetector: geocoding and the main method\<close>

definition CountryDetector_init :: "env \<Rightarrow> bool \<Rightarrow> detector" where
  "CountryDetector_init e use =
     \<lparr>use_geocoding = (use \<and> GEOPY_AVAILABLE e), geocoding_cache = [],
      cache_file = None, effects = []\<rparr>"

text \<open>
  The loop \<open>for attempt in range(max_retries)\<close> of
  \<open>CountryDetector.get_country_with_geocoding\<close>, from the iteration \<open>attempt\<close> on.
\<close>

function CountryDetector_attempts ::
  "env \<Rightarrow> cache_key \<Rightarrow> pyfloat \<Rightarrow> pyfloat \<Rightarrow> int \<Rightarrow> int \<Rightarrow> detector
     \<Rightarrow> (exc + string option) \<times> detector" where
  "CountryDetector_attempts e k lat lon max_retries attempt d =
     (if max_retries \<le> attempt then cache_failure k d
      else
        (case call_reverse e lat lon (do_sleep (1 / 5) d) of
           (Inr location, d') \<Rightarrow>
             (if truthy (country_field location) then
                (let country = the (country_field location);
                     country = (if PYCOUNTRY_AVAILABLE e
                                then (case lookup e country of Some name \<Rightarrow> name
                                      | None \<Rightarrow> country)
                                else country)
                 in (Inr (Some country),
                     d'\<lparr>geocoding_cache := AList.update k (Some country) (geocoding_cache d')\<rparr>))
              else cache_failure k d')
         | (Inl x, d') \<Rightarrow>
             (if x = GeocoderTimedOut \<or> x = GeocoderServiceError then
                (if attempt < max_retries - 1
                 then CountryDetector_attempts e k lat lon max_retries (attempt + 1)
                        (do_sleep (2 ^ nat attempt) d')
                 else cache_failure k d')
              else if is_Exception x then cache_failure k d'
              else (Inl x, d'))))"
  by pat_completeness auto
termination
  by (relation "measure (\<lambda>(e, k, lat, lon, max_retries, attempt, d). nat (max_retries - attempt))")
     auto

text \<open>\<open>CountryDetector.get_country_with_geocoding\<close>.\<close>

definition CountryDetector_get_country_with_geocoding ::
  "env \<Rightarrow> detector \<Rightarrow> pyfloat \<Rightarrow> pyfloat \<Rightarrow> int \<Rightarrow> (exc + string option) \<times> detector" where
  "CountryDetector_get_country_with_geocoding e d lat lon max_retries =
     (let cache_key = (format_fixed 3 lat, format_fixed 3 lon)
      in case map_of (geocoding_cache d) cache_key of
           Some cached \<Rightarrow> (Inr cached, d)
         | None \<Rightarrow> CountryDetector_attempts e cache_key lat lon max_retries 0 d)"

text \<open>\<open>CountryDetector.get_country_from_coordinates\<close>.\<close>

definition CountryDetector_get_country_from_coordinates ::
  "env \<Rightarrow> detector \<Rightarrow> pyval \<Rightarrow> pyval \<Rightarrow> (exc + string) \<times> detector" where
  "CountryDetector_get_country_from_coordinates e d lat lon =
     (if isna lat \<or> isna lon then (Inr ''Unknown'', d)
      else
        (case (to_float e lat, to_float e lon) of
           (Some lat, Some lon) \<Rightarrow>
             (if use_geocoding d then
                (case CountryDetector_get_country_with_geocoding e d lat lon 3 of
                   (Inl x, d') \<Rightarrow> (Inl x, d')
                 | (Inr country, d') \<Rightarrow>
                     (if truthy country then (Inr (the country), d')
                      else (Inr (CountryDetector_get_country_from_geography lat lon), d')))
              else (Inr (CountryDetector_get_country_from_geography lat lon), d))
         | _ \<Rightarrow> (Inr ''Unknown'', d)))"

section \<open>ComprehensiveCountryDetector: geocoding and the main method\<close>

text \<open>
  \<open>ComprehensiveCountryDetector.__init__\<close>: the cache starts from the cache file when
  there is one that loads.
\<close>

definition Comprehensive_init :: "env \<Rightarrow> bool \<Rightarrow> string option \<Rightarrow> detector" where
  "Comprehensive_init e use file =
     \<lparr>use_geocoding = (use \<and> GEOPY_AVAILABLE e),
      geocoding_cache =
        (if truthy file then (case stored_cache e (the file) of Some c \<Rightarrow> c | None \<Rightarrow> [])
         else []),
      cache_file = file, effects = []\<rparr>"

text \<open>\<open>ComprehensiveCountryDetector.standardize_country_name\<close>.\<close>

definition standardize_country_name :: "env \<Rightarrow> string option \<Rightarrow> string option" where
  "standardize_country_name e country_name =
     (if \<not> PYCOUNTRY_AVAILABLE e \<or> \<not> truthy country_name then country_name
      else (case lookup e (the country_name) of Some name \<Rightarrow> Some name
            | None \<Rightarrow> country_name))"

text \<open>
  \<open>ComprehensiveCountryDetector.save_cache\<close>: the file is written when there is a cache
  file and the number of entries is a multiple of ten.
\<close>

definition save_cache :: "detector \<Rightarrow> detector" where
  "save_cache d =
     (if truthy (cache_file d) \<and> length (geocoding_cache d) mod 10 = 0
      then d\<lparr>effects := effects d @ [WriteCache (the (cache_file d)) (geocoding_cache d)]\<rparr>
      else d)"

text \<open>
  The loop \<open>for attempt in range(max_retries)\<close> of
  \<open>ComprehensiveCountryDetector.get_country_with_geocoding\<close>.
\<close>

function Comprehensive_attempts ::
  "env \<Rightarrow> cache_key \<Rightarrow> pyfloat \<Rightarrow> pyfloat \<Rightarrow> int \<Rightarrow> int \<Rightarrow> detector
     \<Rightarrow> (exc + string option) \<times> detector" where
  "Comprehensive_attempts e k lat lon max_retries attempt d =
     (if max_retries \<le> attempt then cache_failure k d
      else
        (case call_reverse e lat lon (do_sleep (3 / 10) d) of
           (Inr location, d') \<Rightarrow>
             (if truthy (country_field location) then
                (Inr (country_field location),
                 save_cache
                   (d'\<lparr>geocoding_cache :=
                         AList.update k (country_field location) (geocoding_cache d')\<rparr>))
              else cache_failure k d')
         | (Inl x, d') \<Rightarrow>
             (if x = GeocoderTimedOut \<or> x = GeocoderServiceError then
                (if attempt < max_retries - 1
                 then Comprehensive_attempts e k lat lon max_retries (attempt + 1)
                        (do_sleep (2 ^ nat attempt) d')
                 else cache_failure k d')
              else if is_Exception x then cache_failure k d'
              else (Inl x, d'))))"
  by pat_completeness auto
termination
  by (relation "measure (\<lambda>(e, k, lat, lon, max_retries, attempt, d). nat (max_retries - attempt))")
     auto

text \<open>\<open>ComprehensiveCountryDetector.get_country_with_geocoding\<close>.\<close>

definition Comprehensive_get_country_with_geocoding ::
  "env \<Rightarrow> detector \<Rightarrow> pyfloat \<Rightarrow> pyfloat \<Rightarrow> int \<Rightarrow> (exc + string option) \<times> detector" where
  "Comprehensive_get_country_with_geocoding e d lat lon max_retries =
     (let cache_key = (format_fixed 2 lat, format_fixed 2 lon)
      in case map_of (geocoding_cache d) cache_key of
           Some cached \<Rightarrow> (Inr cached, d)
         | None \<Rightarrow> Comprehensive_attempts e cache_key lat lon max_retries 0 d)"

text \<open>\<open>ComprehensiveCountryDetector.get_country_from_coordinates\<close>.\<close>

definition Comprehensive_get_country_from_coordinates ::
  "env \<Rightarrow> detector \<Rightarrow> pyval \<Rightarrow> pyval \<Rightarrow> (exc + string) \<times> detector" where
  "Comprehensive_get_country_from_coordinates e d lat lon =
     (if isna lat \<or> isna lon then (Inr ''Unknown'', d)
      else
        (case (to_float e lat, to_float e lon) of
           (Some lat, Some lon) \<Rightarrow>
             (let country = get_high_confidence_country lat lon
              in if country \<noteq> ''Uncertain'' then (Inr country, d)
                 else if use_geocoding d then
                   (case Comprehensive_get_country_with_geocoding e d lat lon 2 of
                      (Inl x, d') \<Rightarrow> (Inl x, d')
                    | (Inr geocoded_country, d') \<Rightarrow>
                        (if truthy geocoded_country
                         then (Inr (the (standardize_country_name e geocoded_country)), d')
                         else (Inr (get_detailed_geographical_country lat lon), d')))
                 else (Inr (get_detailed_geographical_country lat lon), d))
         | _ \<Rightarrow> (Inr ''Unknown'', d)))"

section \<open>The batch jobs\<close>

text \<open>
  The table read from the CSV file, reduced to the columns the jobs use: rows of
  \<open>(Latitude, Longitude)\<close> when there is no \<open>Country\<close> column, rows of
  \<open>(Latitude, Longitude, Country)\<close> when there is one. A missing cell is \<open>PyNone\<close> or
  \<open>PyFloat NaN\<close>.
\<close>

type_synonym row = "pyval \<times> pyval \<times> pyval"

datatype dataframe = Frame "(pyval \<times> pyval) list" | FrameWithCountry "row list"

fun len_df :: "dataframe \<Rightarrow> nat" where
  "len_df (Frame rows) = length rows"
| "len_df (FrameWithCountry rows) = length rows"

text \<open>\<open>df.head(n)\<close>: the first \<open>n\<close> rows, or all but the last \<open>-n\<close> rows when \<open>n\<close> is negative.\<close>

definition head_rows :: "int \<Rightarrow> 'a list \<Rightarrow> 'a list" where
  "head_rows n rows =
     (if 0 \<le> n then take (nat n) rows else take (nat (int (length rows) + n)) rows)"

fun head :: "int \<Rightarrow> dataframe \<Rightarrow> dataframe" where
  "head n (Frame rows) = Frame (head_rows n rows)"
| "head n (FrameWithCountry rows) = FrameWithCountry (head_rows n rows)"

text \<open>\<open>if sample_size and sample_size < len(df): df = df.head(sample_size)\<close>.\<close>

definition take_sample :: "int option \<Rightarrow> dataframe \<Rightarrow> dataframe" where
  "take_sample sample_size df =
     (case sample_size of
        None \<Rightarrow> df
      | Some n \<Rightarrow> if n \<noteq> 0 \<and> n < int (len_df df) then head n df else df)"

text \<open>\<open>df['Country'] = 'Unknown'\<close> on a table.\<close>

fun set_country_unknown :: "dataframe \<Rightarrow> row list" where
  "set_country_unknown (Frame rows) = map (\<lambda>(lat, lon). (lat, lon, PyStr ''Unknown'')) rows"
| "set_country_unknown (FrameWithCountry rows) =
     map (\<lambda>(lat, lon, c). (lat, lon, PyStr ''Unknown'')) rows"

definition log_event :: "event \<Rightarrow> detector \<Rightarrow> detector" where
  "log_event ev d = d\<lparr>effects := effects d @ [ev]\<rparr>"

text \<open>
  The loop of \<open>process_earthquake_database\<close> over \<open>rows_to_process\<close>: the rows before the
  current one (already rewritten), the rows from the current one on, and
  \<open>processed_count\<close>. A row outside the mask is not visited.
\<close>

fun process_rows ::
  "env \<Rightarrow> bool \<Rightarrow> (row \<Rightarrow> bool) \<Rightarrow> row list \<Rightarrow> row list \<Rightarrow> nat \<Rightarrow> detector
     \<Rightarrow> (exc + row list) \<times> detector" where
  "process_rows e use selected before [] processed_count d = (Inr before, d)"
| "process_rows e use selected before ((lat, lon, c) # rest) processed_count d =
     (if \<not> selected (lat, lon, c)
      then process_rows e use selected (before @ [(lat, lon, c)]) rest processed_count d
      else
        (case CountryDetector_get_country_from_coordinates e d lat lon of
           (Inl x, d') \<Rightarrow> (Inl x, d')
         | (Inr country, d') \<Rightarrow>
             (let before' = before @ [(lat, lon, PyStr country)];
                  processed_count' = processed_count + 1;
                  d'' = (if processed_count' mod 1000 = 0 \<and> use
                         then log_event (ToCsv (before' @ rest)) d' else d')
              in process_rows e use selected before' rest processed_count' d'')))"

text \<open>The mask \<open>df['Country'].isna() | (df['Country'] == 'Unknown')\<close>.\<close>

fun needs_country :: "row \<Rightarrow> bool" where
  "needs_country (lat, lon, c) = (isna c \<or> c = PyStr ''Unknown'')"

text \<open>
  \<open>process_earthquake_database\<close>, from the result of \<open>pd.read_csv\<close> on (\<open>None\<close> when the
  file cannot be read). \<open>cache_path\<close> is the name derived from \<open>output_file\<close> for the
  cache. The result is the returned table and the effects of the run.
\<close>

definition process_earthquake_database ::
  "env \<Rightarrow> dataframe option \<Rightarrow> string \<Rightarrow> bool \<Rightarrow> int option
     \<Rightarrow> (exc + dataframe option) \<times> event list" where
  "process_earthquake_database e loaded cache_path use sample_size =
     (case loaded of
        None \<Rightarrow> (Inr None, [])
      | Some df0 \<Rightarrow>
          (let df = take_sample sample_size df0;
               detector = CountryDetector_init e use;
               (selected, rows) =
                 (case df of
                    FrameWithCountry rows \<Rightarrow> (needs_country, rows)
                  | Frame rows \<Rightarrow> (\<lambda>r. True, set_country_unknown df))
           in case process_rows e use selected [] rows 0 detector of
                (Inl x, d) \<Rightarrow> (Inl x, effects d)
              | (Inr rows', d) \<Rightarrow>
                  (let d = log_event (ToCsv rows') d;
                       d = (if use \<and> geocoding_cache d \<noteq> []
                            then log_event (WriteCache cache_path (geocoding_cache d)) d
                            else d)
                   in (Inr (Some (FrameWithCountry rows')), effects d))))"

text \<open>
  The loop of \<open>analyze_and_update_database\<close>, inside \<open>try ... except KeyboardInterrupt\<close>:
  an interrupt ends the loop and keeps the table as it is then.
\<close>

fun analyze_rows ::
  "env \<Rightarrow> bool \<Rightarrow> (row \<Rightarrow> bool) \<Rightarrow> row list \<Rightarrow> row list \<Rightarrow> nat \<Rightarrow> detector
     \<Rightarrow> (exc + row list) \<times> detector" where
  "analyze_rows e use selected before [] processed_count d = (Inr before, d)"
| "analyze_rows e use selected before ((lat, lon, c) # rest) processed_count d =
     (if \<not> selected (lat, lon, c)
      then analyze_rows e use selected (before @ [(lat, lon, c)]) rest processed_count d
      else
        (case Comprehensive_get_country_from_coordinates e d lat lon of
           (Inl x, d') \<Rightarrow>
             (if x = KeyboardInterrupt then (Inr (before @ (lat, lon, c) # rest), d')
              else (Inl x, d'))
         | (Inr country, d') \<Rightarrow>
             (let before' = before @ [(lat, lon, PyStr country)];
                  processed_count' = processed_count + 1;
                  d'' = (if use \<and> processed_count' mod 100 = 0
                         then log_event (ToCsv (before' @ rest)) d' else d')
              in analyze_rows e use selected before' rest processed_count' d'')))"

text \<open>
  The mask \<open>df['Country'].isna() | (df['Country'] == 'Unknown') |
  (df['Country'] == 'Unknown Region')\<close>.
\<close>

fun missing_mask :: "row \<Rightarrow> bool" where
  "missing_mask (lat, lon, c) =
     (isna c \<or> c = PyStr ''Unknown'' \<or> c = PyStr ''Unknown Region'')"

text \<open>
  \<open>analyze_and_update_database\<close>, from the result of \<open>pd.read_csv\<close> on; the table is
  taken to have the \<open>Date\<close> column the analysis reads.
\<close>

definition analyze_and_update_database ::
  "env \<Rightarrow> dataframe option \<Rightarrow> string \<Rightarrow> bool \<Rightarrow> int option \<Rightarrow> bool
     \<Rightarrow> (exc + dataframe option) \<times> event list" where
  "analyze_and_update_database e loaded cache_path use sample_size force_update =
     (case loaded of
        None \<Rightarrow> (Inr None, [])
      | Some df0 \<Rightarrow>
          (let df = take_sample sample_size df0;
               detector = Comprehensive_init e use (if use then Some cache_path else None);
               (selected, rows) =
                 (case df of
                    FrameWithCountry rows \<Rightarrow>
                      (if \<not> force_update then (missing_mask, rows)
                       else (\<lambda>r. True, set_country_unknown df))
                  | Frame rows \<Rightarrow> (\<lambda>r. True, set_country_unknown df))
           in if filter selected rows = [] then (Inr (Some (FrameWithCountry rows)), effects detector)
              else
                (case analyze_rows e use selected [] rows 0 detector of
                   (Inl x, d) \<Rightarrow> (Inl x, effects d)
                 | (Inr rows', d) \<Rightarrow>
                     (let d = log_event (ToCsv rows') d;
                          d = (if use then save_cache d else d)
                      in (Inr (Some (FrameWithCountry rows')), effects d)))))"

section \<open>A concrete environment\<close>

text \<open>
  An environment in which geopy is installed and pycountry is not, the geocoding service
  times out on every call, no string is a number and there is no cache file. It serves to
  evaluate the model on concrete inputs.
\<close>

definition offline_env :: env where
  "offline_env =
     \<lparr>GEOPY_AVAILABLE = True, PYCOUNTRY_AVAILABLE = False,
      reverse = (\<lambda>n lat lon. Inl GeocoderTimedOut),
      lookup = (\<lambda>name. None), float_of_str = (\<lambda>s. None),
      stored_cache = (\<lambda>file. None)\<rparr>"

section \<open>Observing the effects of a run\<close>

text \<open>The calls of the geocoding service among the effects.\<close>

fun is_reverse :: "event \<Rightarrow> bool" where
  "is_reverse (Reverse lat lon) = True"
| "is_reverse ev = False"

text \<open>The only calls of the service among the events are calls for the point given.\<close>

definition attempt_events_ok :: "pyfloat \<Rightarrow> pyfloat \<Rightarrow> event list \<Rightarrow> bool" where
  "attempt_events_ok lat lon evs = (\<forall>ev\<in>set evs. ev = Reverse lat lon \<or> \<not> is_reverse ev)"

text \<open>
  Where the result of a lookup comes from: an exception that leaves the lookup is one
  that the service raised and \<open>except Exception\<close> does not catch; a country is the
  country field of an answer of the service.
\<close>

definition answers_ok :: "env \<Rightarrow> pyfloat \<Rightarrow> pyfloat \<Rightarrow> exc + string option \<Rightarrow> bool" where
  "answers_ok e lat lon r =
     (case r of
        Inl x \<Rightarrow> \<not> is_Exception x \<and> (\<exists>n. reverse e n lat lon = Inl x)
      | Inr None \<Rightarrow> True
      | Inr (Some c) \<Rightarrow> (\<exists>n loc. reverse e n lat lon = Inr loc \<and> truthy (country_field loc)))"

text \<open>
  The effects of \<open>n\<close> attempts of \<open>CountryDetector.get_country_with_geocoding\<close> that end
  in a timeout or a service error and are retried, the first of them being the iteration
  \<open>attempt\<close>: the pause before the request, the request, and the backoff of
  \<open>2 ** attempt\<close> seconds.
\<close>

fun failed_attempts :: "pyfloat \<Rightarrow> pyfloat \<Rightarrow> nat \<Rightarrow> nat \<Rightarrow> event list" where
  "failed_attempts lat lon attempt 0 = []"
| "failed_attempts lat lon attempt (Suc n) =
     [Sleep (1 / 5), Reverse lat lon, Sleep (2 ^ attempt)]
       @ failed_attempts lat lon (Suc attempt) n"

text \<open>
  An environment whose geocoding service times out on the first call, reports a service
  error on the second, and answers every later call with an address in Japan.
\<close>

definition flaky_env :: env where
  "flaky_env =
     \<lparr>GEOPY_AVAILABLE = True, PYCOUNTRY_AVAILABLE = False,
      reverse = (\<lambda>n lat lon.
        if n = 0 then Inl GeocoderTimedOut
        else if n = 1 then Inl GeocoderServiceError
        else Inr (Some (Location (Some [(''country'', ''Japan'')])))),
      lookup = (\<lambda>name. None), float_of_str = (\<lambda>s. None),
      stored_cache = (\<lambda>file. None)\<rparr>"

section \<open>Runs of lookups\<close>

text \<open>
  A run of a detector is a sequence of calls of \<open>get_country_with_geocoding\<close> (with its
  \<open>max_retries\<close>) and of \<open>get_country_from_coordinates\<close>, each on the detector the
  previous call left. An exception that leaves a call ends the run.
\<close>

datatype call = Geocode pyfloat pyfloat int | Resolve pyval pyval

fun raised :: "(exc + 'a) \<times> detector \<Rightarrow> exc option \<times> detector" where
  "raised (Inl x, d) = (Some x, d)"
| "raised (Inr r, d) = (None, d)"

fun CountryDetector_call :: "env \<Rightarrow> detector \<Rightarrow> call \<Rightarrow> exc option \<times> detector" where
  "CountryDetector_call e d (Geocode lat lon max_retries) =
     raised (CountryDetector_get_country_with_geocoding e d lat lon max_retries)"
| "CountryDetector_call e d (Resolve lat lon) =
     raised (CountryDetector_get_country_from_coordinates e d lat lon)"

fun Comprehensive_call :: "env \<Rightarrow> detector \<Rightarrow> call \<Rightarrow> exc option \<times> detector" where
  "Comprehensive_call e d (Geocode lat lon max_retries) =
     raised (Comprehensive_get_country_with_geocoding e d lat lon max_retries)"
| "Comprehensive_call e d (Resolve lat lon) =
     raised (Comprehensive_get_country_from_coordinates e d lat lon)"

fun run_calls ::
  "(detector \<Rightarrow> call \<Rightarrow> exc option \<times> detector) \<Rightarrow> detector \<Rightarrow> call list \<Rightarrow> detector" where
  "run_calls step d [] = d"
| "run_calls step d (c # cs) =
     (case step d c of (Some x, d') \<Rightarrow> d' | (None, d') \<Rightarrow> run_calls step d' cs)"

text \<open>The \<open>max_retries\<close> a call runs with: its argument, or the default of the class.\<close>

fun max_retries_of :: "int \<Rightarrow> call \<Rightarrow> int" where
  "max_retries_of dflt (Geocode lat lon max_retries) = max_retries"
| "max_retries_of dflt (Resolve lat lon) = dflt"

text \<open>
  The number of requests sent to the geocoding service for the points of a cache key,
  among the events given.
\<close>

fun request_key :: "nat \<Rightarrow> event \<Rightarrow> cache_key option" where
  "request_key digits (Reverse lat lon) = Some (format_fixed digits lat, format_fixed digits lon)"
| "request_key digits ev = None"

definition requests_for :: "nat \<Rightarrow> cache_key \<Rightarrow> event list \<Rightarrow> nat" where
  "requests_for digits k evs = length (filter (\<lambda>ev. request_key digits ev = Some k) evs)"

text \<open>
  What one call does, as far as the requests are concerned: it only adds effects, keeps
  the keys of the cache, sends at most \<open>M\<close> requests for a key that is not cached and
  none for a cached one, and when it returns, every key it sent a request for is cached.
\<close>

definition call_ok :: "nat \<Rightarrow> int \<Rightarrow> detector \<Rightarrow> exc option \<times> detector \<Rightarrow> bool" where
  "call_ok digits M d res =
     (\<exists>evs. effects (snd res) = effects d @ evs \<and>
        (\<forall>k. map_of (geocoding_cache d) k \<noteq> None
              \<longrightarrow> map_of (geocoding_cache (snd res)) k \<noteq> None) \<and>
        (\<forall>k. requests_for digits k evs
              \<le> (if map_of (geocoding_cache d) k = None then nat M else 0)) \<and>
        (\<forall>k. 0 < requests_for digits k evs \<and> fst res = None
              \<longrightarrow> map_of (geocoding_cache (snd res)) k \<noteq> None))"

section \<open>Basic facts about the comparisons\<close>

lemma between_Fin [simp]:
  "between a (Fin r) b = (of_int a \<le> r \<and> r \<le> of_int b)"
  by (simp add: between_def lit_def)

lemma between_nonfinite [simp]:
  "between a NaN b = False" "between a NInf b = False" "between a PInf b = False"
  by (simp_all add: between_def lit_def)

lemma fge_lit_simps [simp]:
  "fge_lit (Fin r) n = (of_int n \<le> r)" "fge_lit NaN n = False"
  "fge_lit NInf n = False" "fge_lit PInf n = True"
  by (simp_all add: fge_lit_def lit_def)

lemma fle_lit_simps [simp]:
  "fle_lit (Fin r) n = (r \<le> of_int n)" "fle_lit NaN n = False"
  "fle_lit NInf n = True" "fle_lit PInf n = False"
  by (simp_all add: fle_lit_def lit_def)

lemma fabs_gt_lit_simps [simp]:
  "fabs_gt_lit (Fin r) n = (of_int n < \<bar>r\<bar>)" "fabs_gt_lit NaN n = False"
  "fabs_gt_lit NInf n = True" "fabs_gt_lit PInf n = True"
  by (simp_all add: fabs_gt_lit_def lit_def)

lemmas cd_geo_defs = CountryDetector_get_country_from_geography_def is_in_ocean_def
  land_regions_def is_major_sea_or_lake_def get_regional_fallback_def
  get_specific_ocean_region_def

lemmas comp_geo_defs = get_high_confidence_country_def is_definitely_ocean_def
  get_ocean_name_def get_detailed_geographical_country_def get_regional_classification_def

section \<open>The country rules are tried in the order of their declaration\<close>

text \<open>The chain of tests of the source is the first-match search in the table of rules.\<close>

lemma geography_is_first_match:
  "CountryDetector_get_country_from_geography lat lon =
     first_match country_rules lat lon
       (if is_in_ocean lat lon then get_specific_ocean_region lat lon
        else get_regional_fallback lat lon)"
  unfolding CountryDetector_get_country_from_geography_def country_rules_def
  by (simp only: first_match.simps rule_matches.simps box_contains.simps
        list_ex_Nil_iff list_ex_Cons_iff fst_conv simp_thms)

lemma first_match_least:
  "i < length rs \<Longrightarrow> rule_matches (rs ! i) lat lon \<Longrightarrow>
   \<forall>m<i. \<not> rule_matches (rs ! m) lat lon \<Longrightarrow>
   first_match rs lat lon other = fst (rs ! i)"
proof (induction rs arbitrary: i)
  case Nil
  then show ?case by simp
next
  case (Cons r rs)
  show ?case
  proof (cases i)
    case 0
    with Cons.prems show ?thesis by simp
  next
    case (Suc n)
    from Cons.prems Suc have "\<not> rule_matches r lat lon" by auto
    moreover have "first_match rs lat lon other = fst (rs ! n)"
      using Cons.prems Suc by (intro Cons.IH) auto
    ultimately show ?thesis using Suc by simp
  qed
qed

lemma distinct_country_labels: "distinct (map fst country_rules)"
  by (simp add: country_rules_def)

lemma least_matching_rule:
  "rule_matches (rs ! i) lat lon \<Longrightarrow>
   \<exists>k\<le>i. rule_matches (rs ! k) lat lon \<and> (\<forall>m<k. \<not> rule_matches (rs ! m) lat lon)"
proof (induction i rule: less_induct)
  case (less i)
  show ?case
  proof (cases "\<forall>m<i. \<not> rule_matches (rs ! m) lat lon")
    case True
    with less.prems show ?thesis by blast
  next
    case False
    then obtain m where m: "m < i" "rule_matches (rs ! m) lat lon" by blast
    from less.IH[OF m] obtain k where "k \<le> m" "rule_matches (rs ! k) lat lon"
      "\<forall>m<k. \<not> rule_matches (rs ! m) lat lon" by blast
    with m show ?thesis by (intro exI[of _ k]) auto
  qed
qed

text \<open>
  Claim C2. When a point lies in the boxes of two declared country rules, the rule
  declared later never decides: \<open>get_country_from_geography\<close> returns the label of the
  earliest declared rule that contains the point, which is the earlier of the two rules
  when no rule before it contains the point. The point (45, -70) lies in the continental
  United States box and in the Canada box, and is labelled United States.
\<close>

theorem first_declared_rule_wins:
  assumes "i < j" and "j < length country_rules"
    and "rule_matches (country_rules ! i) lat lon"
    and "rule_matches (country_rules ! j) lat lon"
  shows "(\<exists>k\<le>i. rule_matches (country_rules ! k) lat lon \<and>
            (\<forall>m<k. \<not> rule_matches (country_rules ! m) lat lon) \<and>
            CountryDetector_get_country_from_geography lat lon = fst (country_rules ! k)) \<and>
         ((\<forall>m<i. \<not> rule_matches (country_rules ! m) lat lon) \<longrightarrow>
            CountryDetector_get_country_from_geography lat lon = fst (country_rules ! i)) \<and>
         CountryDetector_get_country_from_geography lat lon \<noteq> fst (country_rules ! j)"
proof -
  from least_matching_rule[OF assms(3)] obtain k where k: "k \<le> i"
    "rule_matches (country_rules ! k) lat lon"
    "\<forall>m<k. \<not> rule_matches (country_rules ! m) lat lon" by blast
  have kl: "k < length country_rules" using k(1) assms(1,2) by simp
  have res: "CountryDetector_get_country_from_geography lat lon = fst (country_rules ! k)"
    unfolding geography_is_first_match using kl k(2,3) by (rule first_match_least)
  have "k \<noteq> j" using k(1) assms(1) by simp
  then have "fst (country_rules ! k) \<noteq> fst (country_rules ! j)"
    using distinct_country_labels kl assms(2) by (simp add: distinct_conv_nth)
  moreover have "(\<forall>m<i. \<not> rule_matches (country_rules ! m) lat lon) \<longrightarrow>
            CountryDetector_get_country_from_geography lat lon = fst (country_rules ! i)"
    unfolding geography_is_first_match
    using assms first_match_least[of i country_rules lat lon] by simp
  ultimately show ?thesis using k res by auto
qed

theorem first_declared_rule_wins_witness:
  "(0::nat) < 1 \<and> 1 < length country_rules \<and>
   rule_matches (country_rules ! 0) (Fin 45) (Fin (-70)) \<and>
   rule_matches (country_rules ! 1) (Fin 45) (Fin (-70)) \<and>
   fst (country_rules ! 0) = ''United States'' \<and> fst (country_rules ! 1) = ''Canada'' \<and>
   CountryDetector_get_country_from_geography (Fin 45) (Fin (-70)) = ''United States''"
proof -
  have a: "(0::nat) < 1" "1 < length country_rules"
    "rule_matches (country_rules ! 0) (Fin 45) (Fin (-70))"
    "rule_matches (country_rules ! 1) (Fin 45) (Fin (-70))"
    by (simp_all add: country_rules_def)
  have l: "fst (country_rules ! 0) = ''United States''" "fst (country_rules ! 1) = ''Canada''"
    by (simp_all add: country_rules_def)
  from first_declared_rule_wins[OF a] l show ?thesis using a by simp
qed

section \<open>The boundaries of the United States boxes\<close>

lemma if_neq: "a \<noteq> x \<Longrightarrow> b \<noteq> x \<Longrightarrow> (if c then a else b) \<noteq> x"
  by simp

lemma if_eq_iff: "b \<noteq> x \<Longrightarrow> ((if c then x else b) = x) = c"
  by simp

lemma ocean_region_not_us: "get_specific_ocean_region lat lon \<noteq> ''United States''"
  unfolding get_specific_ocean_region_def by (intro if_neq) simp_all

lemma regional_fallback_not_us: "get_regional_fallback lat lon \<noteq> ''United States''"
  unfolding get_regional_fallback_def by (intro if_neq) simp_all

lemma united_states_iff:
  "(CountryDetector_get_country_from_geography lat lon = ''United States'') =
     ((between 25 lat 49 \<and> between (-125) lon (-66)) \<or>
      (between 55 lat 72 \<and> between (-168) lon (-141)) \<or>
      (between 18 lat 23 \<and> between (-162) lon (-154)))"
  unfolding CountryDetector_get_country_from_geography_def
  by (rule if_eq_iff, intro if_neq)
     (simp_all add: ocean_region_not_us regional_fallback_not_us)

text \<open>
  Claim C5. The comparisons of the United States rule are inclusive on both ends: a
  point with finite coordinates is labelled United States exactly when it lies in one of
  the three boxes, edges included, so every point of the continental box
  \<open>25 <= lat <= 49\<close>, \<open>-125 <= lon <= -66\<close> is United States. The corner (25, -125) is
  labelled United States, and so are the three other corners. With latitude 24.999 (as
  the decimal number, and as the double nearest to it) and longitude -125 the label is
  Unknown Region, not United States. Without geocoding,
  \<open>get_country_from_coordinates\<close> returns the label of \<open>get_country_from_geography\<close>.
\<close>

theorem us_boundary_inclusive:
  "(CountryDetector_get_country_from_geography (Fin x) (Fin y) = ''United States'') =
     ((25 \<le> x \<and> x \<le> 49 \<and> -125 \<le> y \<and> y \<le> -66) \<or>
      (55 \<le> x \<and> x \<le> 72 \<and> -168 \<le> y \<and> y \<le> -141) \<or>
      (18 \<le> x \<and> x \<le> 23 \<and> -162 \<le> y \<and> y \<le> -154)) \<and>
   (between 25 lat 49 \<and> between (-125) lon (-66) \<longrightarrow>
      CountryDetector_get_country_from_geography lat lon = ''United States'') \<and>
   CountryDetector_get_country_from_geography (Fin 25) (Fin (-125)) = ''United States'' \<and>
   CountryDetector_get_country_from_geography (Fin 49) (Fin (-66)) = ''United States'' \<and>
   CountryDetector_get_country_from_geography (Fin 25) (Fin (-66)) = ''United States'' \<and>
   CountryDetector_get_country_from_geography (Fin 49) (Fin (-125)) = ''United States'' \<and>
   CountryDetector_get_country_from_geography (Fin (24999 / 1000)) (Fin (-125))
     = ''Unknown Region'' \<and>
   CountryDetector_get_country_from_geography
     (Fin (7036592942789689 / 281474976710656)) (Fin (-125)) = ''Unknown Region'' \<and>
   ''Unknown Region'' \<noteq> ''United States'' \<and>
   CountryDetector_get_country_from_coordinates e (d\<lparr>use_geocoding := False\<rparr>)
     (PyFloat (Fin x)) (PyFloat (Fin y))
     = (Inr (CountryDetector_get_country_from_geography (Fin x) (Fin y)),
        d\<lparr>use_geocoding := False\<rparr>)"
proof -
  have a: "(CountryDetector_get_country_from_geography (Fin x) (Fin y) = ''United States'') =
     ((25 \<le> x \<and> x \<le> 49 \<and> -125 \<le> y \<and> y \<le> -66) \<or>
      (55 \<le> x \<and> x \<le> 72 \<and> -168 \<le> y \<and> y \<le> -141) \<or>
      (18 \<le> x \<and> x \<le> 23 \<and> -162 \<le> y \<and> y \<le> -154))"
    unfolding united_states_iff by simp
  have b: "between 25 lat 49 \<and> between (-125) lon (-66) \<longrightarrow>
      CountryDetector_get_country_from_geography lat lon = ''United States''"
    unfolding united_states_iff by simp
  have c: "CountryDetector_get_country_from_geography (Fin 25) (Fin (-125)) = ''United States''"
    "CountryDetector_get_country_from_geography (Fin 49) (Fin (-66)) = ''United States''"
    "CountryDetector_get_country_from_geography (Fin 25) (Fin (-66)) = ''United States''"
    "CountryDetector_get_country_from_geography (Fin 49) (Fin (-125)) = ''United States''"
    unfolding united_states_iff by simp_all
  have f: "CountryDetector_get_country_from_geography (Fin (24999 / 1000)) (Fin (-125))
     = ''Unknown Region''"
    "CountryDetector_get_country_from_geography
     (Fin (7036592942789689 / 281474976710656)) (Fin (-125)) = ''Unknown Region''"
    by (simp_all add: cd_geo_defs)
  have g: "CountryDetector_get_country_from_coordinates e (d\<lparr>use_geocoding := False\<rparr>)
     (PyFloat (Fin x)) (PyFloat (Fin y))
     = (Inr (CountryDetector_get_country_from_geography (Fin x) (Fin y)),
        d\<lparr>use_geocoding := False\<rparr>)"
    by (simp add: CountryDetector_get_country_from_coordinates_def)
  show ?thesis using a b c f g by simp
qed

theorem us_boundary_inclusive_witness:
  "between 25 (Fin 49) 49 \<and> between (-125) (Fin (-66)) (-66) \<and>
   CountryDetector_get_country_from_geography (Fin 49) (Fin (-66)) = ''United States'' \<and>
   CountryDetector_get_country_from_geography (Fin 30) (Fin (-100)) = ''United States'' \<and>
   CountryDetector_get_country_from_geography (Fin (24999 / 1000)) (Fin (-125))
     \<noteq> ''United States'' \<and>
   CountryDetector_get_country_from_geography (Fin (49001 / 1000)) (Fin (-66))
     \<noteq> ''United States'' \<and>
   CountryDetector_get_country_from_coordinates offline_env
     (CountryDetector_init offline_env False) (PyFloat (Fin 25)) (PyFloat (Fin (-125)))
     = (Inr ''United States'', CountryDetector_init offline_env False)"
proof -
  have h: "between 25 (Fin 49) 49 \<and> between (-125) (Fin (-66)) (-66)"
    "between 25 (Fin 30) 49 \<and> between (-125) (Fin (-100)) (-66)"
    by simp_all
  have i: "CountryDetector_init offline_env False
      = (CountryDetector_init offline_env False)\<lparr>use_geocoding := False\<rparr>"
    by (simp add: CountryDetector_init_def)
  from us_boundary_inclusive[of 49 "-66" "Fin 49" "Fin (-66)"]
    us_boundary_inclusive[of "24999 / 1000" "-125" "Fin 30" "Fin (-100)"]
    us_boundary_inclusive[of "49001 / 1000" "-66"]
    us_boundary_inclusive[of 25 "-125" _ _ offline_env "CountryDetector_init offline_env False"]
    h i
  show ?thesis by simp
qed

section \<open>Invalid input\<close>

text \<open>
  Claim C3, as stated, fails: neither class checks the range of a coordinate. With
  geocoding disabled the input (200, 10) is labelled North Atlantic Ocean by
  \<open>CountryDetector\<close> and Arctic Ocean by \<open>ComprehensiveCountryDetector\<close>, not Unknown.
\<close>

theorem out_of_range_not_unknown:
  "CountryDetector_get_country_from_coordinates offline_env
     (CountryDetector_init offline_env False) (PyFloat (Fin 200)) (PyFloat (Fin 10))
     = (Inr ''North Atlantic Ocean'', CountryDetector_init offline_env False) \<and>
   Comprehensive_get_country_from_coordinates offline_env
     (Comprehensive_init offline_env False None) (PyFloat (Fin 200)) (PyFloat (Fin 10))
     = (Inr ''Arctic Ocean'', Comprehensive_init offline_env False None) \<and>
   ''North Atlantic Ocean'' \<noteq> ''Unknown'' \<and> ''Arctic Ocean'' \<noteq> ''Unknown''"
  by (simp add: CountryDetector_get_country_from_coordinates_def
        Comprehensive_get_country_from_coordinates_def cd_geo_defs comp_geo_defs
        CountryDetector_init_def Comprehensive_init_def offline_env_def)

text \<open>
  Claim C3, amended. When the latitude or the longitude is missing (\<open>None\<close> or NaN) or is
  a value that \<open>float()\<close> rejects, \<open>get_country_from_coordinates\<close> of either class
  returns Unknown, and it does so without touching the cache or the network.
\<close>

theorem invalid_input_unknown:
  assumes "isna lat \<or> isna lon \<or> to_float e lat = None \<or> to_float e lon = None"
  shows "CountryDetector_get_country_from_coordinates e d lat lon = (Inr ''Unknown'', d) \<and>
         Comprehensive_get_country_from_coordinates e d lat lon = (Inr ''Unknown'', d)"
  using assms
  by (auto simp add: CountryDetector_get_country_from_coordinates_def
        Comprehensive_get_country_from_coordinates_def split: option.splits)

theorem invalid_input_unknown_witness:
  "isna (PyFloat NaN) \<and> to_float offline_env (PyStr ''abc'') = None \<and>
   CountryDetector_get_country_from_coordinates offline_env
     (CountryDetector_init offline_env True) (PyFloat NaN) (PyFloat (Fin 10))
     = (Inr ''Unknown'', CountryDetector_init offline_env True) \<and>
   Comprehensive_get_country_from_coordinates offline_env
     (Comprehensive_init offline_env True None) (PyFloat (Fin 10)) (PyStr ''abc'')
     = (Inr ''Unknown'', Comprehensive_init offline_env True None)"
proof -
  have a: "isna (PyFloat NaN) \<or> isna (PyFloat (Fin 10)) \<or>
      to_float offline_env (PyFloat NaN) = None \<or>
      to_float offline_env (PyFloat (Fin 10)) = None"
    by simp
  have b: "isna (PyFloat (Fin 10)) \<or> isna (PyStr ''abc'') \<or>
      to_float offline_env (PyFloat (Fin 10)) = None \<or>
      to_float offline_env (PyStr ''abc'') = None"
    by (simp add: offline_env_def)
  have c: "to_float offline_env (PyStr ''abc'') = None"
    by (simp add: offline_env_def)
  from invalid_input_unknown[OF a] invalid_input_unknown[OF b] c show ?thesis by simp
qed

section \<open>Polar rules and ocean basins\<close>

text \<open>
  Claim C4, as stated, fails for \<open>CountryDetector\<close>: \<open>get_specific_ocean_region\<close> tests
  the longitude bands before the polar rules. The ocean point (80, -30) is labelled North
  Atlantic Ocean, and the ocean point (-60, -150) South Pacific Ocean.
\<close>

theorem polar_after_basins_counterexample:
  "is_in_ocean (Fin 80) (Fin (-30)) \<and>
   get_specific_ocean_region (Fin 80) (Fin (-30)) = ''North Atlantic Ocean'' \<and>
   CountryDetector_get_country_from_geography (Fin 80) (Fin (-30))
     = ''North Atlantic Ocean'' \<and>
   is_in_ocean (Fin (-60)) (Fin (-150)) \<and>
   get_specific_ocean_region (Fin (-60)) (Fin (-150)) = ''South Pacific Ocean'' \<and>
   CountryDetector_get_country_from_geography (Fin (-60)) (Fin (-150))
     = ''South Pacific Ocean''"
  by (simp add: cd_geo_defs)

lemma polar_north_tests:
  assumes "fge_lit lat 70"
  shows "\<not> between 30 lat 46" "\<not> between 40 lat 48" "\<not> between 36 lat 47"
    "\<not> between (-50) lat 30" "fge_lit lat 40" "\<not> fle_lit lat (-50)"
  using assms by (cases lat; simp)+

lemma polar_south_tests:
  assumes "fle_lit lat (-50)"
  shows "\<not> between 30 lat 46" "\<not> between 40 lat 48" "\<not> between 36 lat 47"
    "\<not> fge_lit lat 40" "fle_lit lat (-40)" "\<not> fge_lit lat 70"
  using assms by (cases lat; simp)+

lemma ocean_region_north:
  "fge_lit lat 70 \<Longrightarrow>
   get_specific_ocean_region lat lon =
     (if between 120 lon 180 \<or> between (-180) lon (-100) then ''North Pacific Ocean''
      else if between (-80) lon 20 then ''North Atlantic Ocean''
      else ''Arctic Ocean'')"
  unfolding get_specific_ocean_region_def by (simp add: polar_north_tests)

lemma ocean_region_south:
  "fle_lit lat (-50) \<Longrightarrow>
   get_specific_ocean_region lat lon =
     (if between 120 lon 180 \<or> between (-180) lon (-100) then ''South Pacific Ocean''
      else if between (-80) lon 20 then ''South Atlantic Ocean''
      else if between 20 lon 120 \<and> between (-50) lat 30 then ''Indian Ocean''
      else ''Southern Ocean'')"
  unfolding get_specific_ocean_region_def by (simp add: polar_south_tests)

lemma arctic_only:
  "get_specific_ocean_region lat lon = ''Arctic Ocean'' \<Longrightarrow>
     fge_lit lat 70 \<and> \<not> (between 120 lon 180 \<or> between (-180) lon (-100)) \<and>
     \<not> between (-80) lon 20"
  unfolding get_specific_ocean_region_def by (simp split: if_splits)

lemma southern_only:
  "get_specific_ocean_region lat lon = ''Southern Ocean'' \<Longrightarrow>
     fle_lit lat (-50) \<and> \<not> (between 120 lon 180 \<or> between (-180) lon (-100)) \<and>
     \<not> between (-80) lon 20 \<and> \<not> (between 20 lon 120 \<and> between (-50) lat 30)"
  unfolding get_specific_ocean_region_def by (simp split: if_splits)

text \<open>
  Claim C4, amended. In \<open>ComprehensiveCountryDetector.get_ocean_name\<close> the polar rules
  come first: latitude at most -50 gives Southern Ocean and latitude at least 75 gives
  Arctic Ocean, whatever the longitude. In \<open>CountryDetector.get_specific_ocean_region\<close>
  the Pacific and Atlantic longitude bands come first. At latitude 70 or more the label
  is North Pacific Ocean in the Pacific band, North Atlantic Ocean in the Atlantic band,
  and Arctic Ocean at every other longitude. At latitude -50 or less it is South Pacific
  Ocean in the Pacific band, South Atlantic Ocean in the Atlantic band, and at every
  other longitude Southern Ocean, but for Indian Ocean at latitude -50 exactly with
  longitude between 20 and 120. Arctic Ocean and Southern Ocean are returned for no
  other point.
\<close>

theorem polar_override:
  "(fle_lit lat (-50) \<longrightarrow> get_ocean_name lat lon = ''Southern Ocean'') \<and>
   (fge_lit lat 75 \<longrightarrow> get_ocean_name lat lon = ''Arctic Ocean'') \<and>
   (fge_lit lat 70 \<longrightarrow>
      get_specific_ocean_region lat lon =
        (if between 120 lon 180 \<or> between (-180) lon (-100) then ''North Pacific Ocean''
         else if between (-80) lon 20 then ''North Atlantic Ocean''
         else ''Arctic Ocean'')) \<and>
   (fle_lit lat (-50) \<longrightarrow>
      get_specific_ocean_region lat lon =
        (if between 120 lon 180 \<or> between (-180) lon (-100) then ''South Pacific Ocean''
         else if between (-80) lon 20 then ''South Atlantic Ocean''
         else if between 20 lon 120 \<and> between (-50) lat 30 then ''Indian Ocean''
         else ''Southern Ocean'')) \<and>
   ((get_specific_ocean_region lat lon = ''Arctic Ocean'') =
      (fge_lit lat 70 \<and> \<not> (between 120 lon 180 \<or> between (-180) lon (-100)) \<and>
       \<not> between (-80) lon 20)) \<and>
   ((get_specific_ocean_region lat lon = ''Southern Ocean'') =
      (fle_lit lat (-50) \<and> \<not> (between 120 lon 180 \<or> between (-180) lon (-100)) \<and>
       \<not> between (-80) lon 20 \<and> \<not> (between 20 lon 120 \<and> between (-50) lat 30)))"
proof -
  have a: "fle_lit lat (-50) \<longrightarrow> get_ocean_name lat lon = ''Southern Ocean''"
    by (simp add: get_ocean_name_def)
  have "fge_lit lat 75 \<Longrightarrow> \<not> fle_lit lat (-50)"
    by (cases lat) simp_all
  then have b: "fge_lit lat 75 \<longrightarrow> get_ocean_name lat lon = ''Arctic Ocean''"
    by (simp add: get_ocean_name_def)
  have e: "(get_specific_ocean_region lat lon = ''Arctic Ocean'') =
      (fge_lit lat 70 \<and> \<not> (between 120 lon 180 \<or> between (-180) lon (-100)) \<and>
       \<not> between (-80) lon 20)"
    using arctic_only[of lat lon] ocean_region_north[of lat lon] by auto
  have f: "(get_specific_ocean_region lat lon = ''Southern Ocean'') =
      (fle_lit lat (-50) \<and> \<not> (between 120 lon 180 \<or> between (-180) lon (-100)) \<and>
       \<not> between (-80) lon 20 \<and> \<not> (between 20 lon 120 \<and> between (-50) lat 30))"
    using southern_only[of lat lon] ocean_region_south[of lat lon] by auto
  show ?thesis
    using a b e f ocean_region_north[of lat lon] ocean_region_south[of lat lon] by blast
qed

theorem polar_override_witness:
  "fle_lit (Fin (-60)) (-50) \<and> fge_lit (Fin 80) 75 \<and> fge_lit (Fin 85) 70 \<and>
   get_ocean_name (Fin (-60)) (Fin (-30)) = ''Southern Ocean'' \<and>
   get_ocean_name (Fin 80) (Fin (-30)) = ''Arctic Ocean'' \<and>
   is_in_ocean (Fin 85) (Fin 60) \<and> is_in_ocean (Fin (-60)) (Fin 60) \<and>
   is_in_ocean (Fin 80) (Fin (-30)) \<and>
   get_specific_ocean_region (Fin 85) (Fin 60) = ''Arctic Ocean'' \<and>
   get_specific_ocean_region (Fin (-60)) (Fin 60) = ''Southern Ocean'' \<and>
   get_specific_ocean_region (Fin 80) (Fin (-30)) = ''North Atlantic Ocean'' \<and>
   CountryDetector_get_country_from_geography (Fin 85) (Fin 60) = ''Arctic Ocean'' \<and>
   CountryDetector_get_country_from_geography (Fin (-60)) (Fin 60) = ''Southern Ocean''"
proof -
  have h: "fle_lit (Fin (-60)) (-50)" "fge_lit (Fin 80) 75" "fge_lit (Fin 85) 70"
    "fge_lit (Fin 80) 70"
    by simp_all
  have o: "is_in_ocean (Fin 85) (Fin 60)" "is_in_ocean (Fin (-60)) (Fin 60)"
    "is_in_ocean (Fin 80) (Fin (-30))"
    by (simp_all add: is_in_ocean_def land_regions_def is_major_sea_or_lake_def)
  have g: "CountryDetector_get_country_from_geography (Fin 85) (Fin 60)
      = get_specific_ocean_region (Fin 85) (Fin 60)"
    "CountryDetector_get_country_from_geography (Fin (-60)) (Fin 60)
      = get_specific_ocean_region (Fin (-60)) (Fin 60)"
    by (simp_all add: CountryDetector_get_country_from_geography_def o)
  from polar_override[of "Fin (-60)" "Fin (-30)"] polar_override[of "Fin 80" "Fin (-30)"]
    polar_override[of "Fin 85" "Fin 60"] polar_override[of "Fin (-60)" "Fin 60"] h o g
  show ?thesis by simp
qed

section \<open>High-confidence rules come before geocoding\<close>

text \<open>
  Claim C7. For a pair of coordinates that are present and numeric, when
  \<open>get_high_confidence_country\<close> returns a label other than Uncertain,
  \<open>ComprehensiveCountryDetector.get_country_from_coordinates\<close> returns that label and
  leaves the detector as it was: no call of the geocoding service, no sleep, no change of
  the cache, whether geocoding is enabled or not.
\<close>

theorem high_confidence_short_circuit:
  assumes "\<not> isna lat" and "\<not> isna lon"
    and "to_float e lat = Some x" and "to_float e lon = Some y"
    and "get_high_confidence_country x y \<noteq> ''Uncertain''"
  shows "Comprehensive_get_country_from_coordinates e d lat lon
           = (Inr (get_high_confidence_country x y), d)"
  using assms by (simp add: Comprehensive_get_country_from_coordinates_def)

theorem high_confidence_short_circuit_witness:
  "\<not> isna (PyFloat (Fin 35)) \<and> \<not> isna (PyFloat (Fin 139)) \<and>
   to_float offline_env (PyFloat (Fin 35)) = Some (Fin 35) \<and>
   to_float offline_env (PyFloat (Fin 139)) = Some (Fin 139) \<and>
   get_high_confidence_country (Fin 35) (Fin 139) = ''Japan'' \<and>
   ''Japan'' \<noteq> ''Uncertain'' \<and>
   use_geocoding (Comprehensive_init offline_env True None) \<and>
   Comprehensive_get_country_from_coordinates offline_env
     (Comprehensive_init offline_env True None) (PyFloat (Fin 35)) (PyFloat (Fin 139))
     = (Inr ''Japan'', Comprehensive_init offline_env True None)"
proof -
  have hc: "get_high_confidence_country (Fin 35) (Fin 139) = ''Japan''"
    by (simp add: comp_geo_defs)
  have h: "\<not> isna (PyFloat (Fin 35))" "\<not> isna (PyFloat (Fin 139))"
    "to_float offline_env (PyFloat (Fin 35)) = Some (Fin 35)"
    "to_float offline_env (PyFloat (Fin 139)) = Some (Fin 139)"
    "get_high_confidence_country (Fin 35) (Fin 139) \<noteq> ''Uncertain''"
    by (simp_all add: hc)
  have u: "use_geocoding (Comprehensive_init offline_env True None)"
    by (simp add: Comprehensive_init_def offline_env_def)
  from high_confidence_short_circuit[OF h, of "Comprehensive_init offline_env True None"]
    hc h u
  show ?thesis by simp
qed

section \<open>The retry loop\<close>

declare CountryDetector_attempts.simps [simp del]
declare Comprehensive_attempts.simps [simp del]

lemma call_reverse_alt:
  "call_reverse e lat lon d =
     (reverse e (length (filter is_reverse (effects d))) lat lon,
      d\<lparr>effects := effects d @ [Reverse lat lon]\<rparr>)"
proof -
  have "(\<lambda>ev. case ev of Reverse a b \<Rightarrow> True | _ \<Rightarrow> False) = is_reverse"
    by (rule ext) (simp split: event.splits)
  then show ?thesis by (simp add: call_reverse_def)
qed

lemma CD_attempts_spec:
  "\<exists>evs r. CountryDetector_attempts e k lat lon m a d =
      (r, d\<lparr>geocoding_cache :=
              (case r of Inr v \<Rightarrow> AList.update k v (geocoding_cache d)
               | Inl x \<Rightarrow> geocoding_cache d),
            effects := effects d @ evs\<rparr>) \<and>
     attempt_events_ok lat lon evs \<and>
     length (filter is_reverse evs) \<le> nat (m - a) \<and>
     answers_ok e lat lon r"
proof (induction e k lat lon m a d rule: CountryDetector_attempts.induct)
  case (1 e k lat lon m a d)
  show ?case
  proof (cases "m \<le> a")
    case True
    then show ?thesis
      by (subst CountryDetector_attempts.simps)
         (auto simp: cache_failure_def attempt_events_ok_def answers_ok_def
            intro!: exI[of _ "[]"])
  next
    case False
    let ?d1 = "do_sleep (1 / 5) d"
    obtain res d' where cr: "call_reverse e lat lon ?d1 = (res, d')"
      by (cases "call_reverse e lat lon ?d1")
    then have d': "d' = d\<lparr>effects := effects d @ [Sleep (1 / 5), Reverse lat lon]\<rparr>"
      and res: "\<exists>n. res = reverse e n lat lon"
      by (auto simp: call_reverse_alt do_sleep_def)
    show ?thesis
    proof (cases res)
      case (Inr location)
      show ?thesis
        using False cr Inr d' res
        by (subst CountryDetector_attempts.simps)
           (auto simp: cache_failure_def attempt_events_ok_def answers_ok_def Let_def
              intro!: exI[of _ "[Sleep (1 / 5), Reverse lat lon]"] split: option.splits
              dest: sym)
    next
      case (Inl x)
      show ?thesis
      proof (cases "(x = GeocoderTimedOut \<or> x = GeocoderServiceError) \<and> a < m - 1")
        case True
        from "1.IH"[OF False cr[symmetric] Inl] True
        obtain evs r where ih: "CountryDetector_attempts e k lat lon m (a + 1)
              (do_sleep (2 ^ nat a) d') =
            (r, (do_sleep (2 ^ nat a) d')\<lparr>geocoding_cache :=
                (case r of Inr v \<Rightarrow> AList.update k v (geocoding_cache (do_sleep (2 ^ nat a) d'))
                 | Inl x \<Rightarrow> geocoding_cache (do_sleep (2 ^ nat a) d')),
              effects := effects (do_sleep (2 ^ nat a) d') @ evs\<rparr>)"
          "attempt_events_ok lat lon evs"
          "length (filter is_reverse evs) \<le> nat (m - (a + 1))"
          "answers_ok e lat lon r"
          by blast
        show ?thesis
          using False cr Inl True ih d'
          by (subst CountryDetector_attempts.simps)
             (auto simp: attempt_events_ok_def do_sleep_def split: sum.splits
                intro!: exI[of _ "[Sleep (1 / 5), Reverse lat lon, Sleep (2 ^ nat a)] @ evs"])
      next
        case F2: False
        show ?thesis
          using False cr Inl F2 d' res
          by (subst CountryDetector_attempts.simps)
             (auto simp: cache_failure_def attempt_events_ok_def answers_ok_def
                intro!: exI[of _ "[Sleep (1 / 5), Reverse lat lon]"] dest: sym)
      qed
    qed
  qed
qed

lemma save_cache_alt:
  "\<exists>evs. save_cache d = d\<lparr>effects := effects d @ evs\<rparr> \<and> (\<forall>ev\<in>set evs. \<not> is_reverse ev)"
  by (cases "truthy (cache_file d) \<and> length (geocoding_cache d) mod 10 = 0")
     (auto simp: save_cache_def intro: exI[of _ "[]"])

lemma Comp_attempts_spec:
  "\<exists>evs r. Comprehensive_attempts e k lat lon m a d =
      (r, d\<lparr>geocoding_cache :=
              (case r of Inr v \<Rightarrow> AList.update k v (geocoding_cache d)
               | Inl x \<Rightarrow> geocoding_cache d),
            effects := effects d @ evs\<rparr>) \<and>
     attempt_events_ok lat lon evs \<and>
     length (filter is_reverse evs) \<le> nat (m - a) \<and>
     answers_ok e lat lon r"
proof (induction e k lat lon m a d rule: Comprehensive_attempts.induct)
  case (1 e k lat lon m a d)
  show ?case
  proof (cases "m \<le> a")
    case True
    then show ?thesis
      by (subst Comprehensive_attempts.simps)
         (auto simp: cache_failure_def attempt_events_ok_def answers_ok_def
            intro!: exI[of _ "[]"])
  next
    case False
    let ?d1 = "do_sleep (3 / 10) d"
    obtain res d' where cr: "call_reverse e lat lon ?d1 = (res, d')"
      by (cases "call_reverse e lat lon ?d1")
    then have d': "d' = d\<lparr>effects := effects d @ [Sleep (3 / 10), Reverse lat lon]\<rparr>"
      and res: "\<exists>n. res = reverse e n lat lon"
      by (auto simp: call_reverse_alt do_sleep_def)
    show ?thesis
    proof (cases res)
      case (Inr location)
      show ?thesis
      proof (cases "truthy (country_field location)")
        case True
        let ?d2 = "d'\<lparr>geocoding_cache :=
                         AList.update k (country_field location) (geocoding_cache d')\<rparr>"
        obtain sv where sv: "save_cache ?d2 = ?d2\<lparr>effects := effects ?d2 @ sv\<rparr>"
          "\<forall>ev\<in>set sv. \<not> is_reverse ev"
          using save_cache_alt[of ?d2] by blast
        obtain c where c: "country_field location = Some c"
          using True by (cases "country_field location") auto
        have "Comprehensive_attempts e k lat lon m a d = (Inr (Some c), save_cache ?d2)"
          using False cr Inr True c by (subst Comprehensive_attempts.simps) simp
        moreover have "answers_ok e lat lon (Inr (Some c))"
          using res Inr True by (auto simp: answers_ok_def dest: sym)
        ultimately show ?thesis
          using sv d' c False
          by (auto simp: attempt_events_ok_def
                intro!: exI[of _ "[Sleep (3 / 10), Reverse lat lon] @ sv"]
                        exI[of _ "Inr (Some c)"])
      next
        case F3: False
        show ?thesis
          using False cr Inr d' F3
          by (subst Comprehensive_attempts.simps)
             (auto simp: cache_failure_def attempt_events_ok_def answers_ok_def
                intro!: exI[of _ "[Sleep (3 / 10), Reverse lat lon]"])
      qed
    next
      case (Inl x)
      show ?thesis
      proof (cases "(x = GeocoderTimedOut \<or> x = GeocoderServiceError) \<and> a < m - 1")
        case True
        from "1.IH"[OF False cr[symmetric] Inl] True
        obtain evs r where ih: "Comprehensive_attempts e k lat lon m (a + 1)
              (do_sleep (2 ^ nat a) d') =
            (r, (do_sleep (2 ^ nat a) d')\<lparr>geocoding_cache :=
                (case r of Inr v \<Rightarrow> AList.update k v (geocoding_cache (do_sleep (2 ^ nat a) d'))
                 | Inl x \<Rightarrow> geocoding_cache (do_sleep (2 ^ nat a) d')),
              effects := effects (do_sleep (2 ^ nat a) d') @ evs\<rparr>)"
          "attempt_events_ok lat lon evs"
          "length (filter is_reverse evs) \<le> nat (m - (a + 1))"
          "answers_ok e lat lon r"
          by blast
        show ?thesis
          using False cr Inl True ih d'
          by (subst Comprehensive_attempts.simps)
             (auto simp: attempt_events_ok_def do_sleep_def split: sum.splits
                intro!: exI[of _ "[Sleep (3 / 10), Reverse lat lon, Sleep (2 ^ nat a)] @ evs"])
      next
        case F2: False
        show ?thesis
          using False cr Inl F2 d' res
          by (subst Comprehensive_attempts.simps)
             (auto simp: cache_failure_def attempt_events_ok_def answers_ok_def
                intro!: exI[of _ "[Sleep (3 / 10), Reverse lat lon]"] dest: sym)
      qed
    qed
  qed
qed

section \<open>Retry with exponential backoff\<close>

lemma CD_geocoding_hit:
  "map_of (geocoding_cache d) (format_fixed 3 lat, format_fixed 3 lon) = Some v \<Longrightarrow>
   CountryDetector_get_country_with_geocoding e d lat lon m = (Inr v, d)"
  by (simp add: CountryDetector_get_country_with_geocoding_def)

lemma CD_geocoding_miss:
  "map_of (geocoding_cache d) (format_fixed 3 lat, format_fixed 3 lon) = None \<Longrightarrow>
   CountryDetector_get_country_with_geocoding e d lat lon m =
     CountryDetector_attempts e (format_fixed 3 lat, format_fixed 3 lon) lat lon m 0 d"
  by (simp add: CountryDetector_get_country_with_geocoding_def)

lemma CD_attempts_retry:
  assumes "\<forall>i<j. reverse e (length (filter is_reverse (effects d)) + i) lat lon
             \<in> {Inl GeocoderTimedOut, Inl GeocoderServiceError}"
    and "reverse e (length (filter is_reverse (effects d)) + j) lat lon = Inr location"
    and "country_field location = Some country" and "country \<noteq> []"
    and "a + int j < m" and "0 \<le> a"
  shows "CountryDetector_attempts e k lat lon m a d =
     (Inr (Some (if PYCOUNTRY_AVAILABLE e
                 then (case lookup e country of Some name \<Rightarrow> name | None \<Rightarrow> country)
                 else country)),
      d\<lparr>geocoding_cache :=
           AList.update k
             (Some (if PYCOUNTRY_AVAILABLE e
                    then (case lookup e country of Some name \<Rightarrow> name | None \<Rightarrow> country)
                    else country))
             (geocoding_cache d),
         effects := effects d @ failed_attempts lat lon (nat a) j
                      @ [Sleep (1 / 5), Reverse lat lon]\<rparr>)"
  using assms
proof (induction j arbitrary: a d)
  case 0
  then show ?case
    by (subst CountryDetector_attempts.simps)
       (simp add: call_reverse_alt do_sleep_def Let_def)
next
  case (Suc j)
  let ?n = "length (filter is_reverse (effects d))"
  let ?d2 = "d\<lparr>effects := effects d @ [Sleep (1 / 5), Reverse lat lon, Sleep (2 ^ nat a)]\<rparr>"
  have f0: "reverse e ?n lat lon \<in> {Inl GeocoderTimedOut, Inl GeocoderServiceError}"
    using Suc.prems(1) by (metis add.right_neutral zero_less_Suc)
  have n2: "length (filter is_reverse (effects ?d2)) = Suc ?n" by simp
  have step: "CountryDetector_attempts e k lat lon m a d =
      CountryDetector_attempts e k lat lon m (a + 1) ?d2"
    using f0 Suc.prems(5)
    by (subst CountryDetector_attempts.simps)
       (auto simp: call_reverse_alt do_sleep_def)
  have "CountryDetector_attempts e k lat lon m (a + 1) ?d2 =
     (Inr (Some (if PYCOUNTRY_AVAILABLE e
                 then (case lookup e country of Some name \<Rightarrow> name | None \<Rightarrow> country)
                 else country)),
      ?d2\<lparr>geocoding_cache :=
           AList.update k
             (Some (if PYCOUNTRY_AVAILABLE e
                    then (case lookup e country of Some name \<Rightarrow> name | None \<Rightarrow> country)
                    else country))
             (geocoding_cache ?d2),
         effects := effects ?d2 @ failed_attempts lat lon (nat (a + 1)) j
                      @ [Sleep (1 / 5), Reverse lat lon]\<rparr>)"
  proof (rule Suc.IH)
    show "\<forall>i<j. reverse e (length (filter is_reverse (effects ?d2)) + i) lat lon
             \<in> {Inl GeocoderTimedOut, Inl GeocoderServiceError}"
      using Suc.prems(1) unfolding n2
      by (metis Suc_less_eq add_Suc add_Suc_right)
    show "reverse e (length (filter is_reverse (effects ?d2)) + j) lat lon = Inr location"
      using Suc.prems(2) unfolding n2 by simp
    show "country_field location = Some country" "country \<noteq> []"
      using Suc.prems by auto
    show "a + 1 + int j < m" "0 \<le> a + 1" using Suc.prems by auto
  qed
  moreover have "nat (a + 1) = Suc (nat a)" using Suc.prems(6) by simp
  ultimately show ?case unfolding step by simp
qed


text \<open>
  Claim C6. When the cache has no entry for the point, the service raises a timeout or a
  service error on the first \<open>j\<close> attempts and then returns a location with a country,
  and \<open>j < max_retries\<close>, \<open>CountryDetector.get_country_with_geocoding\<close> returns that
  country (standardized when pycountry is there) and caches it. It makes \<open>j + 1\<close>
  requests, no more than \<open>max_retries\<close>, and after the failed attempt number \<open>i\<close> it
  sleeps \<open>2 ** i\<close> seconds: with \<open>max_retries = 3\<close> and two failures, 1 second and then
  2 seconds, each between two requests (every request is preceded by the pause of 0.2
  seconds).
\<close>

theorem retry_with_backoff:
  assumes "map_of (geocoding_cache d) (format_fixed 3 lat, format_fixed 3 lon) = None"
    and "\<forall>i<j. reverse e (length (filter is_reverse (effects d)) + i) lat lon
             \<in> {Inl GeocoderTimedOut, Inl GeocoderServiceError}"
    and "reverse e (length (filter is_reverse (effects d)) + j) lat lon = Inr location"
    and "country_field location = Some country" and "country \<noteq> []"
    and "int j < max_retries"
  shows "CountryDetector_get_country_with_geocoding e d lat lon max_retries =
     (Inr (Some (if PYCOUNTRY_AVAILABLE e
                 then (case lookup e country of Some name \<Rightarrow> name | None \<Rightarrow> country)
                 else country)),
      d\<lparr>geocoding_cache :=
           AList.update (format_fixed 3 lat, format_fixed 3 lon)
             (Some (if PYCOUNTRY_AVAILABLE e
                    then (case lookup e country of Some name \<Rightarrow> name | None \<Rightarrow> country)
                    else country))
             (geocoding_cache d),
         effects := effects d @ failed_attempts lat lon 0 j
                      @ [Sleep (1 / 5), Reverse lat lon]\<rparr>) \<and>
     length (filter is_reverse (failed_attempts lat lon 0 j @ [Sleep (1 / 5), Reverse lat lon]))
       = j + 1 \<and>
     int (j + 1) \<le> max_retries \<and>
     failed_attempts lat lon 0 2 =
       [Sleep (1 / 5), Reverse lat lon, Sleep 1, Sleep (1 / 5), Reverse lat lon, Sleep 2] \<and>
     failed_attempts lat lon 0 3 =
       [Sleep (1 / 5), Reverse lat lon, Sleep 1, Sleep (1 / 5), Reverse lat lon, Sleep 2,
        Sleep (1 / 5), Reverse lat lon, Sleep 4]"
proof -
  have n: "length (filter is_reverse (failed_attempts lat lon a j)) = j" for a
    by (induction j arbitrary: a) simp_all
  have t: "failed_attempts lat lon 0 2 =
       [Sleep (1 / 5), Reverse lat lon, Sleep 1, Sleep (1 / 5), Reverse lat lon, Sleep 2]"
    "failed_attempts lat lon 0 3 =
       [Sleep (1 / 5), Reverse lat lon, Sleep 1, Sleep (1 / 5), Reverse lat lon, Sleep 2,
        Sleep (1 / 5), Reverse lat lon, Sleep 4]"
    by (simp_all add: numeral_2_eq_2 numeral_3_eq_3)
  show ?thesis
    unfolding CD_geocoding_miss[OF assms(1)]
    using CD_attempts_retry[OF assms(2-5), of 0 max_retries] assms(6) n t by simp
qed

theorem retry_with_backoff_witness:
  "map_of (geocoding_cache (CountryDetector_init flaky_env True))
     (format_fixed 3 (Fin 35), format_fixed 3 (Fin 139)) = None \<and>
   reverse flaky_env 0 (Fin 35) (Fin 139) = Inl GeocoderTimedOut \<and>
   reverse flaky_env 1 (Fin 35) (Fin 139) = Inl GeocoderServiceError \<and>
   reverse flaky_env 2 (Fin 35) (Fin 139)
     = Inr (Some (Location (Some [(''country'', ''Japan'')]))) \<and>
   CountryDetector_get_country_with_geocoding flaky_env
     (CountryDetector_init flaky_env True) (Fin 35) (Fin 139) 3 =
   (Inr (Some ''Japan''),
    \<lparr>use_geocoding = True,
     geocoding_cache = [((FNum False 35000, FNum False 139000), Some ''Japan'')],
     cache_file = None,
     effects = [Sleep (1 / 5), Reverse (Fin 35) (Fin 139), Sleep 1,
                Sleep (1 / 5), Reverse (Fin 35) (Fin 139), Sleep 2,
                Sleep (1 / 5), Reverse (Fin 35) (Fin 139)]\<rparr>)"
proof -
  let ?d = "CountryDetector_init flaky_env True"
  have e0: "effects ?d = []" "geocoding_cache ?d = []"
    by (simp_all add: CountryDetector_init_def)
  have a1: "map_of (geocoding_cache ?d) (format_fixed 3 (Fin 35), format_fixed 3 (Fin 139)) = None"
    by (simp add: e0)
  have r: "reverse flaky_env 0 (Fin 35) (Fin 139) = Inl GeocoderTimedOut"
    "reverse flaky_env 1 (Fin 35) (Fin 139) = Inl GeocoderServiceError"
    "reverse flaky_env 2 (Fin 35) (Fin 139)
      = Inr (Some (Location (Some [(''country'', ''Japan'')])))"
    by (simp_all add: flaky_env_def)
  have a2: "\<forall>i<2. reverse flaky_env (length (filter is_reverse (effects ?d)) + i)
      (Fin 35) (Fin 139) \<in> {Inl GeocoderTimedOut, Inl GeocoderServiceError}"
    unfolding e0 by (auto simp add: flaky_env_def numeral_2_eq_2 less_Suc_eq)
  have a3: "reverse flaky_env (length (filter is_reverse (effects ?d)) + 2) (Fin 35) (Fin 139)
      = Inr (Some (Location (Some [(''country'', ''Japan'')])))"
    unfolding e0 by (simp add: flaky_env_def)
  have a4: "country_field (Some (Location (Some [(''country'', ''Japan'')]))) = Some ''Japan''"
    by (simp add: py_or_def)
  have a5: "''Japan'' \<noteq> []" by simp
  have a6: "int 2 < 3" by simp
  have k: "format_fixed 3 (Fin 35) = FNum False 35000"
    "format_fixed 3 (Fin 139) = FNum False 139000"
    by (simp_all add: round_half_even_def)
  have p: "\<not> PYCOUNTRY_AVAILABLE flaky_env" by (simp add: flaky_env_def)
  from retry_with_backoff[OF a1 a2 a3 a4 a5 a6] r a1 k p
  show ?thesis by (simp add: CountryDetector_init_def flaky_env_def)
qed

section \<open>Failures of the geocoding service\<close>

lemma CD_geocoding_returns:
  assumes "\<forall>n la lo x. reverse e n la lo = Inl x \<longrightarrow> is_Exception x"
  shows "\<exists>r d'. CountryDetector_get_country_with_geocoding e d x y m = (Inr r, d') \<and>
           map_of (geocoding_cache d') (format_fixed 3 x, format_fixed 3 y) = Some r \<and>
           answers_ok e x y (Inr r) \<or>
         (\<exists>r. CountryDetector_get_country_with_geocoding e d x y m = (Inr r, d) \<and>
           map_of (geocoding_cache d) (format_fixed 3 x, format_fixed 3 y) = Some r)"
proof (cases "map_of (geocoding_cache d) (format_fixed 3 x, format_fixed 3 y)")
  case (Some v)
  then show ?thesis using CD_geocoding_hit[OF Some] by blast
next
  case None
  let ?k = "(format_fixed 3 x, format_fixed 3 y)"
  from CD_attempts_spec[of e ?k x y m 0 d]
  obtain evs r where s: "CountryDetector_attempts e ?k x y m 0 d =
      (r, d\<lparr>geocoding_cache :=
              (case r of Inr v \<Rightarrow> AList.update ?k v (geocoding_cache d)
               | Inl x \<Rightarrow> geocoding_cache d),
            effects := effects d @ evs\<rparr>)" "answers_ok e x y r"
    by blast
  show ?thesis
  proof (cases r)
    case (Inl ex)
    with s(2) assms show ?thesis by (auto simp: answers_ok_def)
  next
    case (Inr v)
    with s show ?thesis
      unfolding CD_geocoding_miss[OF None] by (auto simp: update_conv')
  qed
qed

lemma CD_geocoding_total:
  assumes "\<forall>n la lo x. reverse e n la lo = Inl x \<longrightarrow> is_Exception x"
  shows "\<exists>r d'. CountryDetector_get_country_with_geocoding e d x y m = (Inr r, d') \<and>
            map_of (geocoding_cache d') (format_fixed 3 x, format_fixed 3 y) = Some r \<and>
            (map_of (geocoding_cache d) (format_fixed 3 x, format_fixed 3 y) = None \<longrightarrow>
               answers_ok e x y (Inr r))"
  using CD_geocoding_returns[OF assms, of d x y m] by auto

lemma CD_resolver_total:
  assumes "\<forall>n la lo x. reverse e n la lo = Inl x \<longrightarrow> is_Exception x"
  shows "\<exists>label d'. CountryDetector_get_country_from_coordinates e d lat lon
            = (Inr label, d')"
proof (cases "isna lat \<or> isna lon")
  case True
  then show ?thesis
    by (simp add: CountryDetector_get_country_from_coordinates_def)
next
  case False
  show ?thesis
  proof (cases "to_float e lat")
    case None
    with False show ?thesis
      by (simp add: CountryDetector_get_country_from_coordinates_def)
  next
    case u: (Some u)
    show ?thesis
    proof (cases "to_float e lon")
      case None
      with False u show ?thesis
        by (simp add: CountryDetector_get_country_from_coordinates_def)
    next
      case v: (Some v)
      show ?thesis
      proof (cases "use_geocoding d")
        case False
        with \<open>\<not> (isna lat \<or> isna lon)\<close> u v show ?thesis
          by (simp add: CountryDetector_get_country_from_coordinates_def)
      next
        case True
        from CD_geocoding_total[OF assms, of d u v 3] obtain r d' where
          "CountryDetector_get_country_with_geocoding e d u v 3 = (Inr r, d')" by blast
        with \<open>\<not> (isna lat \<or> isna lon)\<close> u v True show ?thesis
          by (simp add: CountryDetector_get_country_from_coordinates_def)
      qed
    qed
  qed
qed

lemma CD_resolver_fallback:
  assumes "\<forall>n la lo x. reverse e n la lo = Inl x \<longrightarrow> is_Exception x"
    and h: "use_geocoding d" "x \<noteq> NaN" "y \<noteq> NaN"
      "map_of (geocoding_cache d) (format_fixed 3 x, format_fixed 3 y) = None"
      "\<forall>n loc. reverse e n x y = Inr loc \<longrightarrow> \<not> truthy (country_field loc)"
  shows "\<exists>d'. CountryDetector_get_country_with_geocoding e d x y 3 = (Inr None, d') \<and>
               map_of (geocoding_cache d') (format_fixed 3 x, format_fixed 3 y) = Some None \<and>
               CountryDetector_get_country_from_coordinates e d (PyFloat x) (PyFloat y)
                 = (Inr (CountryDetector_get_country_from_geography x y), d')"
proof -
  from CD_geocoding_total[OF assms(1), of d x y 3] obtain r d' where
    r: "CountryDetector_get_country_with_geocoding e d x y 3 = (Inr r, d')"
    "map_of (geocoding_cache d') (format_fixed 3 x, format_fixed 3 y) = Some r"
    and imp: "map_of (geocoding_cache d) (format_fixed 3 x, format_fixed 3 y) = None \<longrightarrow>
               answers_ok e x y (Inr r)"
    by (elim exE conjE)
  from imp h(4) have ok: "answers_ok e x y (Inr r)" by (rule mp)
  have rn: "r = None"
  proof (cases r)
    case None
    then show ?thesis .
  next
    case (Some c)
    with ok obtain n loc where "reverse e n x y = Inr loc" "truthy (country_field loc)"
      unfolding answers_ok_def by auto
    with h(5) show ?thesis by auto
  qed
  have na: "\<not> isna (PyFloat x)" "\<not> isna (PyFloat y)"
    using h(2) h(3) by (cases x, simp_all, cases y, simp_all)
  have "CountryDetector_get_country_from_coordinates e d (PyFloat x) (PyFloat y)
                 = (Inr (CountryDetector_get_country_from_geography x y), d')"
    using r(1) h(1) rn na by (simp add: CountryDetector_get_country_from_coordinates_def)
  with r rn show ?thesis by (intro exI[of _ d']) simp
qed

text \<open>
  Claim C8. Whatever the geocoding service does, as long as what it raises is an
  \<open>Exception\<close> (a timeout, a service error or any other; a \<open>KeyboardInterrupt\<close> is
  the user's, not the service's): \<open>CountryDetector.get_country_with_geocoding\<close> returns
  a value, which is then the cache entry of the point, and
  \<open>get_country_from_coordinates\<close> returns a label and raises nothing. When geocoding is
  enabled, the point is not in the cache and no answer of the service for it has a country
  field (each is an exception, no location, no address or no country), the lookup returns
  \<open>None\<close>, the cache records \<open>None\<close> for the point, and the label is the one of the
  geographical rules.
\<close>

theorem network_failure_never_propagates:
  assumes "\<forall>n la lo x. reverse e n la lo = Inl x \<longrightarrow> is_Exception x"
  shows "(\<exists>r d'. CountryDetector_get_country_with_geocoding e d x y m = (Inr r, d') \<and>
            map_of (geocoding_cache d') (format_fixed 3 x, format_fixed 3 y) = Some r) \<and>
         (\<exists>label d'. CountryDetector_get_country_from_coordinates e d lat lon
            = (Inr label, d')) \<and>
         (use_geocoding d \<and> x \<noteq> NaN \<and> y \<noteq> NaN \<and>
          map_of (geocoding_cache d) (format_fixed 3 x, format_fixed 3 y) = None \<and>
          (\<forall>n loc. reverse e n x y = Inr loc \<longrightarrow> \<not> truthy (country_field loc)) \<longrightarrow>
            (\<exists>d'. CountryDetector_get_country_with_geocoding e d x y 3 = (Inr None, d') \<and>
               map_of (geocoding_cache d') (format_fixed 3 x, format_fixed 3 y) = Some None \<and>
               CountryDetector_get_country_from_coordinates e d (PyFloat x) (PyFloat y)
                 = (Inr (CountryDetector_get_country_from_geography x y), d')))"
proof (intro conjI impI)
  show "\<exists>r d'. CountryDetector_get_country_with_geocoding e d x y m = (Inr r, d') \<and>
            map_of (geocoding_cache d') (format_fixed 3 x, format_fixed 3 y) = Some r"
  proof -
    from CD_geocoding_total[OF assms, of d x y m] obtain r d' where
      "CountryDetector_get_country_with_geocoding e d x y m = (Inr r, d')"
      "map_of (geocoding_cache d') (format_fixed 3 x, format_fixed 3 y) = Some r"
      by (elim exE conjE)
    then show ?thesis by (intro exI conjI)
  qed
  show "\<exists>label d'. CountryDetector_get_country_from_coordinates e d lat lon = (Inr label, d')"
    by (rule CD_resolver_total[OF assms])
  show "\<exists>d'. CountryDetector_get_country_with_geocoding e d x y 3 = (Inr None, d') \<and>
               map_of (geocoding_cache d') (format_fixed 3 x, format_fixed 3 y) = Some None \<and>
               CountryDetector_get_country_from_coordinates e d (PyFloat x) (PyFloat y)
                 = (Inr (CountryDetector_get_country_from_geography x y), d')"
    if "use_geocoding d \<and> x \<noteq> NaN \<and> y \<noteq> NaN \<and>
          map_of (geocoding_cache d) (format_fixed 3 x, format_fixed 3 y) = None \<and>
          (\<forall>n loc. reverse e n x y = Inr loc \<longrightarrow> \<not> truthy (country_field loc))"
  proof -
    from that have c: "use_geocoding d" "x \<noteq> NaN" "y \<noteq> NaN"
      "map_of (geocoding_cache d) (format_fixed 3 x, format_fixed 3 y) = None"
      "\<forall>n loc. reverse e n x y = Inr loc \<longrightarrow> \<not> truthy (country_field loc)"
      by simp_all
    show ?thesis by (rule CD_resolver_fallback[OF assms c])
  qed
qed

theorem network_failure_never_propagates_witness:
  "reverse offline_env 0 (Fin 10) (Fin 20) = Inl GeocoderTimedOut \<and>
   is_Exception GeocoderTimedOut \<and>
   use_geocoding (CountryDetector_init offline_env True) \<and>
   CountryDetector_get_country_with_geocoding offline_env
     (CountryDetector_init offline_env True) (Fin 10) (Fin 20) 3 =
   (Inr None,
    \<lparr>use_geocoding = True,
     geocoding_cache = [((FNum False 10000, FNum False 20000), None)],
     cache_file = None,
     effects = [Sleep (1 / 5), Reverse (Fin 10) (Fin 20), Sleep 1,
                Sleep (1 / 5), Reverse (Fin 10) (Fin 20), Sleep 2,
                Sleep (1 / 5), Reverse (Fin 10) (Fin 20)]\<rparr>) \<and>
   fst (CountryDetector_get_country_from_coordinates offline_env
     (CountryDetector_init offline_env True) (PyFloat (Fin 10)) (PyFloat (Fin 20)))
     = Inr ''West Africa'' \<and>
   CountryDetector_get_country_from_geography (Fin 10) (Fin 20) = ''West Africa''"
proof -
  let ?d = "CountryDetector_init offline_env True"
  have h: "\<forall>n la lo x. reverse offline_env n la lo = Inl x \<longrightarrow> is_Exception x"
    by (simp add: offline_env_def)
  have u: "use_geocoding ?d \<and> Fin 10 \<noteq> NaN \<and> Fin 20 \<noteq> NaN \<and>
     map_of (geocoding_cache ?d) (format_fixed 3 (Fin 10), format_fixed 3 (Fin 20)) = None \<and>
     (\<forall>n loc. reverse offline_env n (Fin 10) (Fin 20) = Inr loc
        \<longrightarrow> \<not> truthy (country_field loc))"
    by (simp add: CountryDetector_init_def offline_env_def)
  have ev: "CountryDetector_get_country_with_geocoding offline_env ?d (Fin 10) (Fin 20) 3 =
   (Inr None,
    \<lparr>use_geocoding = True,
     geocoding_cache = [((FNum False 10000, FNum False 20000), None)],
     cache_file = None,
     effects = [Sleep (1 / 5), Reverse (Fin 10) (Fin 20), Sleep 1,
                Sleep (1 / 5), Reverse (Fin 10) (Fin 20), Sleep 2,
                Sleep (1 / 5), Reverse (Fin 10) (Fin 20)]\<rparr>)"
    by (simp add: CountryDetector_get_country_with_geocoding_def CountryDetector_init_def
        offline_env_def CountryDetector_attempts.simps call_reverse_def do_sleep_def
        cache_failure_def round_half_even_def)
  have w: "CountryDetector_get_country_from_geography (Fin 10) (Fin 20) = ''West Africa''"
    by (simp add: cd_geo_defs)
  note t = network_failure_never_propagates[OF h, of ?d "Fin 10" "Fin 20" 3
      "PyFloat (Fin 10)" "PyFloat (Fin 20)"]
  from t[THEN conjunct2, THEN conjunct2, THEN mp, OF u]
  obtain d' where "CountryDetector_get_country_from_coordinates offline_env ?d
      (PyFloat (Fin 10)) (PyFloat (Fin 20))
      = (Inr (CountryDetector_get_country_from_geography (Fin 10) (Fin 20)), d')"
    by (elim exE conjE)
  then have "fst (CountryDetector_get_country_from_coordinates offline_env ?d
      (PyFloat (Fin 10)) (PyFloat (Fin 20))) = Inr ''West Africa''"
    using w by simp
  moreover have "reverse offline_env 0 (Fin 10) (Fin 20) = Inl GeocoderTimedOut"
    by (simp add: offline_env_def)
  ultimately show ?thesis using u ev w by simp
qed

section \<open>The Central Pacific test\<close>

lemma Comp_geocoding_hit:
  "map_of (geocoding_cache d) (format_fixed 2 lat, format_fixed 2 lon) = Some v \<Longrightarrow>
   Comprehensive_get_country_with_geocoding e d lat lon m = (Inr v, d)"
  by (simp add: Comprehensive_get_country_with_geocoding_def)

lemma Comp_geocoding_miss:
  "map_of (geocoding_cache d) (format_fixed 2 lat, format_fixed 2 lon) = None \<Longrightarrow>
   Comprehensive_get_country_with_geocoding e d lat lon m =
     Comprehensive_attempts e (format_fixed 2 lat, format_fixed 2 lon) lat lon m 0 d"
  by (simp add: Comprehensive_get_country_with_geocoding_def)

lemma Comp_attempts_effects:
  "\<exists>evs. effects (snd (Comprehensive_attempts e k lat lon m a d)) = effects d @ evs"
proof -
  from Comp_attempts_spec[of e k lat lon m a d] obtain evs r where
    "Comprehensive_attempts e k lat lon m a d =
      (r, d\<lparr>geocoding_cache :=
              (case r of Inr v \<Rightarrow> AList.update k v (geocoding_cache d)
               | Inl x \<Rightarrow> geocoding_cache d),
            effects := effects d @ evs\<rparr>)"
    by (elim exE conjE)
  then show ?thesis by simp
qed

lemma Comp_attempts_first:
  assumes "a < m"
  shows "\<exists>rest. effects (snd (Comprehensive_attempts e k lat lon m a d)) =
           effects d @ Sleep (3 / 10) # Reverse lat lon # rest"
proof -
  let ?d' = "d\<lparr>effects := effects d @ [Sleep (3 / 10), Reverse lat lon]\<rparr>"
  let ?res = "reverse e (length (filter is_reverse (effects d))) lat lon"
  have cr: "call_reverse e lat lon (do_sleep (3 / 10) d) = (?res, ?d')"
    by (simp add: call_reverse_alt do_sleep_def)
  show ?thesis
  proof (cases "\<exists>x. ?res = Inl x \<and> (x = GeocoderTimedOut \<or> x = GeocoderServiceError)
      \<and> a < m - 1")
    case True
    then obtain x where x: "?res = Inl x" "x = GeocoderTimedOut \<or> x = GeocoderServiceError"
      "a < m - 1" by (elim exE conjE)
    have "Comprehensive_attempts e k lat lon m a d =
        Comprehensive_attempts e k lat lon m (a + 1) (do_sleep (2 ^ nat a) ?d')"
      using assms cr x by (subst Comprehensive_attempts.simps) auto
    moreover obtain evs where "effects (snd (Comprehensive_attempts e k lat lon m (a + 1)
        (do_sleep (2 ^ nat a) ?d'))) = effects (do_sleep (2 ^ nat a) ?d') @ evs"
      using Comp_attempts_effects[of e k lat lon m "a + 1" "do_sleep (2 ^ nat a) ?d'"]
      by (elim exE)
    ultimately show ?thesis by (simp add: do_sleep_def)
  next
    case False
    show ?thesis
    proof (cases ?res)
      case (Inl x)
      with False assms cr show ?thesis
        by (subst Comprehensive_attempts.simps) (auto simp: cache_failure_def)
    next
      case (Inr location)
      obtain sv where sv: "save_cache (?d'\<lparr>geocoding_cache :=
            AList.update k (country_field location) (geocoding_cache ?d')\<rparr>) =
          (?d'\<lparr>geocoding_cache :=
            AList.update k (country_field location) (geocoding_cache ?d')\<rparr>)
            \<lparr>effects := effects ?d' @ sv\<rparr>"
        using save_cache_alt[of "?d'\<lparr>geocoding_cache :=
            AList.update k (country_field location) (geocoding_cache ?d')\<rparr>"]
        by (elim exE conjE) simp
      show ?thesis
        using Inr assms cr sv
        by (subst Comprehensive_attempts.simps) (auto simp: cache_failure_def)
    qed
  qed
qed

lemma open_pacific_uncertain:
  "get_high_confidence_country (Fin 0) (Fin 160) = ''Uncertain''"
  by (simp add: comp_geo_defs)

text \<open>
  Claim C10. No longitude satisfies \<open>140 <= lon <= -120\<close>, so the Central Pacific test
  of \<open>is_definitely_ocean\<close> never holds: the function is true exactly on the Atlantic
  box, the Indian box and the two polar caps, and false on every point of the Pacific
  longitudes (140 to 180, -180 to -120) between the polar caps. For the point (0, 160)
  \<open>get_high_confidence_country\<close> returns Uncertain; with geocoding enabled and the point
  not in the cache, \<open>get_country_from_coordinates\<close> then pauses and sends a request to the
  geocoding service for it; with geocoding disabled the detailed rules label it North
  Pacific Ocean.
\<close>

theorem central_pacific_unsatisfiable:
  "\<not> between 140 lon (-120) \<and>
   is_definitely_ocean lat lon =
     ((between (-40) lat 40 \<and> between (-50) lon (-10)) \<or>
      (between (-40) lat 20 \<and> between 60 lon 100) \<or>
      fle_lit lat (-50) \<or> fge_lit lat 75) \<and>
   ((between 140 lon 180 \<or> between (-180) lon (-120)) \<and>
    \<not> fle_lit lat (-50) \<and> \<not> fge_lit lat 75 \<longrightarrow> \<not> is_definitely_ocean lat lon) \<and>
   \<not> is_definitely_ocean (Fin 0) (Fin 160) \<and>
   get_high_confidence_country (Fin 0) (Fin 160) = ''Uncertain'' \<and>
   (use_geocoding d \<and>
    map_of (geocoding_cache d) (format_fixed 2 (Fin 0), format_fixed 2 (Fin 160)) = None \<longrightarrow>
      (\<exists>rest. effects (snd (Comprehensive_get_country_from_coordinates e d
                  (PyFloat (Fin 0)) (PyFloat (Fin 160))))
         = effects d @ Sleep (3 / 10) # Reverse (Fin 0) (Fin 160) # rest)) \<and>
   Comprehensive_get_country_from_coordinates e (d\<lparr>use_geocoding := False\<rparr>)
     (PyFloat (Fin 0)) (PyFloat (Fin 160))
     = (Inr ''North Pacific Ocean'', d\<lparr>use_geocoding := False\<rparr>)"
proof (intro conjI impI)
  show u: "\<not> between 140 lon (-120)" by (cases lon) simp_all
  show c: "is_definitely_ocean lat lon =
     ((between (-40) lat 40 \<and> between (-50) lon (-10)) \<or>
      (between (-40) lat 20 \<and> between 60 lon 100) \<or>
      fle_lit lat (-50) \<or> fge_lit lat 75)"
    using u by (simp add: is_definitely_ocean_def)
  show "\<not> is_definitely_ocean lat lon"
    if "(between 140 lon 180 \<or> between (-180) lon (-120)) \<and>
        \<not> fle_lit lat (-50) \<and> \<not> fge_lit lat 75"
  proof -
    from that have "\<not> between (-50) lon (-10)"
      by (cases lon) auto
    moreover from that have "\<not> between 60 lon 100"
      by (cases lon) auto
    ultimately have "\<not> between (-50) lon (-10)" "\<not> between 60 lon 100"
      by simp_all
    with that show ?thesis unfolding c by simp
  qed
  show "\<not> is_definitely_ocean (Fin 0) (Fin 160)"
    by (simp add: is_definitely_ocean_def)
  show "get_high_confidence_country (Fin 0) (Fin 160) = ''Uncertain''"
    by (rule open_pacific_uncertain)
  show "\<exists>rest. effects (snd (Comprehensive_get_country_from_coordinates e d
                  (PyFloat (Fin 0)) (PyFloat (Fin 160))))
         = effects d @ Sleep (3 / 10) # Reverse (Fin 0) (Fin 160) # rest"
    if h: "use_geocoding d \<and>
      map_of (geocoding_cache d) (format_fixed 2 (Fin 0), format_fixed 2 (Fin 160)) = None"
  proof -
    from h have g: "use_geocoding d"
      and miss: "map_of (geocoding_cache d)
        (format_fixed 2 (Fin 0), format_fixed 2 (Fin 160)) = None"
      by simp_all
    have "snd (Comprehensive_get_country_from_coordinates e d
                  (PyFloat (Fin 0)) (PyFloat (Fin 160))) =
          snd (Comprehensive_get_country_with_geocoding e d (Fin 0) (Fin 160) 2)"
      using g open_pacific_uncertain
      by (simp add: Comprehensive_get_country_from_coordinates_def
            split: prod.splits sum.splits)
    also have "\<dots> = snd (Comprehensive_attempts e
        (format_fixed 2 (Fin 0), format_fixed 2 (Fin 160)) (Fin 0) (Fin 160) 2 0 d)"
      by (simp only: Comp_geocoding_miss[OF miss])
    finally show ?thesis
      using Comp_attempts_first[of 0 2 e
          "(format_fixed 2 (Fin 0), format_fixed 2 (Fin 160))" "Fin 0" "Fin 160" d]
      by simp
  qed
  show "Comprehensive_get_country_from_coordinates e (d\<lparr>use_geocoding := False\<rparr>)
     (PyFloat (Fin 0)) (PyFloat (Fin 160))
     = (Inr ''North Pacific Ocean'', d\<lparr>use_geocoding := False\<rparr>)"
    by (simp add: Comprehensive_get_country_from_coordinates_def comp_geo_defs)
qed

theorem central_pacific_unsatisfiable_witness:
  "use_geocoding (Comprehensive_init offline_env True None) \<and>
   map_of (geocoding_cache (Comprehensive_init offline_env True None))
     (format_fixed 2 (Fin 0), format_fixed 2 (Fin 160)) = None \<and>
   (between 140 (Fin 160) 180 \<or> between (-180) (Fin 160) (-120)) \<and>
   \<not> fle_lit (Fin 0) (-50) \<and> \<not> fge_lit (Fin 0) 75 \<and>
   \<not> is_definitely_ocean (Fin 0) (Fin 160) \<and>
   (\<exists>rest. effects (snd (Comprehensive_get_country_from_coordinates offline_env
        (Comprehensive_init offline_env True None) (PyFloat (Fin 0)) (PyFloat (Fin 160))))
      = Sleep (3 / 10) # Reverse (Fin 0) (Fin 160) # rest)"
proof -
  let ?d = "Comprehensive_init offline_env True None"
  have h: "use_geocoding ?d \<and>
    map_of (geocoding_cache ?d) (format_fixed 2 (Fin 0), format_fixed 2 (Fin 160)) = None"
    by (simp add: Comprehensive_init_def offline_env_def)
  have b: "(between 140 (Fin 160) 180 \<or> between (-180) (Fin 160) (-120)) \<and>
     \<not> fle_lit (Fin 0) (-50) \<and> \<not> fge_lit (Fin 0) 75"
    by simp
  have e0: "effects ?d = []" by (simp add: Comprehensive_init_def)
  note t = central_pacific_unsatisfiable[of "Fin 160" "Fin 0" ?d offline_env]
  from t have "\<not> is_definitely_ocean (Fin 0) (Fin 160)" by (elim conjE)
  moreover from t have "use_geocoding ?d \<and>
      map_of (geocoding_cache ?d) (format_fixed 2 (Fin 0), format_fixed 2 (Fin 160)) = None
      \<longrightarrow> (\<exists>rest. effects (snd (Comprehensive_get_country_from_coordinates offline_env
        ?d (PyFloat (Fin 0)) (PyFloat (Fin 160))))
      = effects ?d @ Sleep (3 / 10) # Reverse (Fin 0) (Fin 160) # rest)"
    by (elim conjE)
  ultimately show ?thesis using h b e0 by simp
qed

section \<open>One lookup per cache key\<close>

lemma requests_for_append [simp]:
  "requests_for digits k (xs @ ys) = requests_for digits k xs + requests_for digits k ys"
  by (simp add: requests_for_def)

lemma requests_for_Nil [simp]: "requests_for digits k [] = 0"
  by (simp add: requests_for_def)

lemma call_ok_refl: "call_ok digits M d (x, d)"
  by (auto simp: call_ok_def intro!: exI[of _ "[]"])

lemma run_calls_bound:
  assumes "\<forall>c\<in>set calls. \<forall>d. call_ok digits M d (step d c)"
  shows "requests_for digits k (effects (run_calls step d calls))
           \<le> requests_for digits k (effects d)
               + (if map_of (geocoding_cache d) k = None then nat M else 0)"
  using assms
proof (induction calls arbitrary: d)
  case Nil
  then show ?case by simp
next
  case (Cons c cs)
  obtain x d' where st: "step d c = (x, d')" by (cases "step d c")
  from Cons.prems have "call_ok digits M d (step d c)" by simp
  then obtain evs where ev: "effects d' = effects d @ evs"
    and a: "\<forall>k. map_of (geocoding_cache d) k \<noteq> None
              \<longrightarrow> map_of (geocoding_cache d') k \<noteq> None"
    and b: "\<forall>k. requests_for digits k evs
              \<le> (if map_of (geocoding_cache d) k = None then nat M else 0)"
    and c: "\<forall>k. 0 < requests_for digits k evs \<and> x = None
              \<longrightarrow> map_of (geocoding_cache d') k \<noteq> None"
    unfolding call_ok_def st fst_conv snd_conv by (elim exE conjE)
  note ok = ev a[THEN spec, of k] b[THEN spec, of k] c[THEN spec, of k]
  show ?case
  proof (cases x)
    case (Some ex)
    with st ok show ?thesis by simp
  next
    case None
    have ih: "requests_for digits k (effects (run_calls step d' cs))
           \<le> requests_for digits k (effects d')
               + (if map_of (geocoding_cache d') k = None then nat M else 0)"
      using Cons.prems by (intro Cons.IH) simp
    have "requests_for digits k evs
        + (if map_of (geocoding_cache d') k = None then nat M else 0)
        \<le> (if map_of (geocoding_cache d) k = None then nat M else 0)"
      using ok None by (cases "requests_for digits k evs = 0") (auto split: if_splits)
    with ih ok(1) st None show ?thesis by simp
  qed
qed

lemma request_key_not_reverse: "\<not> is_reverse ev \<Longrightarrow> request_key digits ev = None"
  by (cases ev) simp_all

lemma requests_for_attempt:
  "attempt_events_ok lat lon evs \<Longrightarrow>
   requests_for digits k evs =
     (if k = (format_fixed digits lat, format_fixed digits lon)
      then length (filter is_reverse evs) else 0)"
proof (induction evs)
  case Nil
  then show ?case by simp
next
  case (Cons ev evs)
  then have ih: "requests_for digits k evs =
     (if k = (format_fixed digits lat, format_fixed digits lon)
      then length (filter is_reverse evs) else 0)"
    by (simp add: attempt_events_ok_def)
  from Cons.prems have "ev = Reverse lat lon \<or> \<not> is_reverse ev"
    by (simp add: attempt_events_ok_def)
  then show ?case
  proof
    assume "ev = Reverse lat lon"
    with ih show ?thesis by (auto simp: requests_for_def)
  next
    assume n: "\<not> is_reverse ev"
    with ih request_key_not_reverse[OF n, of digits] show ?thesis
      by (simp add: requests_for_def)
  qed
qed

lemma attempts_call_ok:
  assumes "R = (r, d\<lparr>geocoding_cache :=
              (case r of Inr v \<Rightarrow> AList.update key v (geocoding_cache d)
               | Inl x \<Rightarrow> geocoding_cache d),
            effects := effects d @ evs\<rparr>)"
    and "attempt_events_ok lat lon evs"
    and "length (filter is_reverse evs) \<le> nat m"
    and "key = (format_fixed digits lat, format_fixed digits lon)"
    and "map_of (geocoding_cache d) key = None"
    and "m \<le> M"
  shows "call_ok digits M d (raised R)"
proof (cases r)
  case (Inl x)
  have "requests_for digits k evs
      \<le> (if map_of (geocoding_cache d) k = None then nat M else 0)" for k
    using assms(3-5) nat_mono[OF assms(6)]
    by (auto simp: requests_for_attempt[OF assms(2)])
  then show ?thesis
    using Inl assms(1) by (auto simp: call_ok_def intro!: exI[of _ evs])
next
  case (Inr v)
  have b: "requests_for digits k evs
      \<le> (if map_of (geocoding_cache d) k = None then nat M else 0)" for k
    using assms(3-5) nat_mono[OF assms(6)]
    by (auto simp: requests_for_attempt[OF assms(2)])
  have c: "0 < requests_for digits k evs \<Longrightarrow> k = key" for k
    using assms(4) by (simp add: requests_for_attempt[OF assms(2)] split: if_splits)
  have "effects (snd (raised R)) = effects d @ evs"
    "geocoding_cache (snd (raised R)) = AList.update key v (geocoding_cache d)"
    "fst (raised R) = None"
    using Inr assms(1) by simp_all
  then show ?thesis
    unfolding call_ok_def using b c
    by (intro exI[of _ evs]) (auto simp: update_conv')
qed

lemma CD_geocode_call_ok:
  assumes "m \<le> M"
  shows "call_ok 3 M d (CountryDetector_call e d (Geocode lat lon m))"
proof (cases "map_of (geocoding_cache d) (format_fixed 3 lat, format_fixed 3 lon)")
  case (Some v)
  show ?thesis
    by (simp add: CD_geocoding_hit[OF Some] call_ok_refl)
next
  case None
  from CD_attempts_spec[of e "(format_fixed 3 lat, format_fixed 3 lon)" lat lon m 0 d]
  obtain evs r where
    s: "CountryDetector_attempts e (format_fixed 3 lat, format_fixed 3 lon) lat lon m 0 d =
      (r, d\<lparr>geocoding_cache :=
              (case r of Inr v \<Rightarrow>
                 AList.update (format_fixed 3 lat, format_fixed 3 lon) v (geocoding_cache d)
               | Inl x \<Rightarrow> geocoding_cache d),
            effects := effects d @ evs\<rparr>)"
    and ok: "attempt_events_ok lat lon evs"
    and n: "length (filter is_reverse evs) \<le> nat (m - 0)"
    by (elim exE conjE)
  from n have n': "length (filter is_reverse evs) \<le> nat m" by simp
  show ?thesis
    unfolding CountryDetector_call.simps CD_geocoding_miss[OF None]
    by (rule attempts_call_ok[OF s ok n' refl None assms])
qed

lemma Comp_geocode_call_ok:
  assumes "m \<le> M"
  shows "call_ok 2 M d (Comprehensive_call e d (Geocode lat lon m))"
proof (cases "map_of (geocoding_cache d) (format_fixed 2 lat, format_fixed 2 lon)")
  case (Some v)
  show ?thesis
    by (simp add: Comp_geocoding_hit[OF Some] call_ok_refl)
next
  case None
  from Comp_attempts_spec[of e "(format_fixed 2 lat, format_fixed 2 lon)" lat lon m 0 d]
  obtain evs r where
    s: "Comprehensive_attempts e (format_fixed 2 lat, format_fixed 2 lon) lat lon m 0 d =
      (r, d\<lparr>geocoding_cache :=
              (case r of Inr v \<Rightarrow>
                 AList.update (format_fixed 2 lat, format_fixed 2 lon) v (geocoding_cache d)
               | Inl x \<Rightarrow> geocoding_cache d),
            effects := effects d @ evs\<rparr>)"
    and ok: "attempt_events_ok lat lon evs"
    and n: "length (filter is_reverse evs) \<le> nat (m - 0)"
    by (elim exE conjE)
  from n have n': "length (filter is_reverse evs) \<le> nat m" by simp
  show ?thesis
    unfolding Comprehensive_call.simps Comp_geocoding_miss[OF None]
    by (rule attempts_call_ok[OF s ok n' refl None assms])
qed

lemma CD_resolve_call:
  "CountryDetector_call e d (Resolve lat lon) = (None, d) \<or>
   (\<exists>u v. CountryDetector_call e d (Resolve lat lon) = CountryDetector_call e d (Geocode u v 3))"
proof (cases "isna lat \<or> isna lon \<or> to_float e lat = None \<or> to_float e lon = None
    \<or> \<not> use_geocoding d")
  case True
  then show ?thesis
    by (auto simp: CountryDetector_get_country_from_coordinates_def split: option.splits)
next
  case False
  then obtain u v where uv: "to_float e lat = Some u" "to_float e lon = Some v" by auto
  obtain r d' where g: "CountryDetector_get_country_with_geocoding e d u v 3 = (r, d')"
    by (cases "CountryDetector_get_country_with_geocoding e d u v 3")
  have "CountryDetector_call e d (Resolve lat lon) = CountryDetector_call e d (Geocode u v 3)"
    using False uv g
    by (cases r) (simp_all add: CountryDetector_get_country_from_coordinates_def)
  then show ?thesis by (intro disjI2 exI)
qed

lemma Comp_resolve_call:
  "Comprehensive_call e d (Resolve lat lon) = (None, d) \<or>
   (\<exists>u v. Comprehensive_call e d (Resolve lat lon) = Comprehensive_call e d (Geocode u v 2))"
proof (cases "isna lat \<or> isna lon \<or> to_float e lat = None \<or> to_float e lon = None
    \<or> \<not> use_geocoding d")
  case True
  then show ?thesis
    by (auto simp: Comprehensive_get_country_from_coordinates_def Let_def
          split: option.splits)
next
  case False
  then obtain u v where uv: "to_float e lat = Some u" "to_float e lon = Some v" by auto
  show ?thesis
  proof (cases "get_high_confidence_country u v = ''Uncertain''")
    case H: False
    with False uv show ?thesis
      by (simp add: Comprehensive_get_country_from_coordinates_def)
  next
    case H: True
    obtain r d' where g: "Comprehensive_get_country_with_geocoding e d u v 2 = (r, d')"
      by (cases "Comprehensive_get_country_with_geocoding e d u v 2")
    have "Comprehensive_call e d (Resolve lat lon) = Comprehensive_call e d (Geocode u v 2)"
      using False uv g H
      by (cases r) (simp_all add: Comprehensive_get_country_from_coordinates_def)
    then show ?thesis by (intro disjI2 exI)
  qed
qed

lemma CD_call_ok:
  assumes "max_retries_of 3 c \<le> M"
  shows "call_ok 3 M d (CountryDetector_call e d c)"
proof (cases c)
  case (Geocode lat lon m)
  with assms show ?thesis by (simp only: max_retries_of.simps CD_geocode_call_ok)
next
  case (Resolve lat lon)
  with assms have "3 \<le> M" by simp
  from CD_resolve_call[of e d lat lon] show ?thesis
  proof
    assume "CountryDetector_call e d (Resolve lat lon) = (None, d)"
    then show ?thesis unfolding Resolve by (simp only: call_ok_refl)
  next
    assume "\<exists>u v. CountryDetector_call e d (Resolve lat lon)
        = CountryDetector_call e d (Geocode u v 3)"
    then obtain u v where "CountryDetector_call e d (Resolve lat lon)
        = CountryDetector_call e d (Geocode u v 3)" by (elim exE)
    then show ?thesis unfolding Resolve
      by (simp only: CD_geocode_call_ok[OF \<open>3 \<le> M\<close>])
  qed
qed

lemma Comp_call_ok:
  assumes "max_retries_of 2 c \<le> M"
  shows "call_ok 2 M d (Comprehensive_call e d c)"
proof (cases c)
  case (Geocode lat lon m)
  with assms show ?thesis by (simp only: max_retries_of.simps Comp_geocode_call_ok)
next
  case (Resolve lat lon)
  with assms have "2 \<le> M" by simp
  from Comp_resolve_call[of e d lat lon] show ?thesis
  proof
    assume "Comprehensive_call e d (Resolve lat lon) = (None, d)"
    then show ?thesis unfolding Resolve by (simp only: call_ok_refl)
  next
    assume "\<exists>u v. Comprehensive_call e d (Resolve lat lon)
        = Comprehensive_call e d (Geocode u v 2)"
    then obtain u v where "Comprehensive_call e d (Resolve lat lon)
        = Comprehensive_call e d (Geocode u v 2)" by (elim exE)
    then show ?thesis unfolding Resolve
      by (simp only: Comp_geocode_call_ok[OF \<open>2 \<le> M\<close>])
  qed
qed

lemma CD_geocoding_caches:
  assumes "CountryDetector_get_country_with_geocoding e d lat lon m = (Inr r, d')"
  shows "map_of (geocoding_cache d') (format_fixed 3 lat, format_fixed 3 lon) = Some r"
proof (cases "map_of (geocoding_cache d) (format_fixed 3 lat, format_fixed 3 lon)")
  case (Some v)
  with assms show ?thesis by (simp add: CD_geocoding_hit[OF Some])
next
  case None
  from CD_attempts_spec[of e "(format_fixed 3 lat, format_fixed 3 lon)" lat lon m 0 d]
  obtain evs r' where
    "CountryDetector_attempts e (format_fixed 3 lat, format_fixed 3 lon) lat lon m 0 d =
      (r', d\<lparr>geocoding_cache :=
              (case r' of Inr v \<Rightarrow>
                 AList.update (format_fixed 3 lat, format_fixed 3 lon) v (geocoding_cache d)
               | Inl x \<Rightarrow> geocoding_cache d),
            effects := effects d @ evs\<rparr>)"
    by (elim exE conjE)
  with assms show ?thesis
    unfolding CD_geocoding_miss[OF None] by (auto simp: update_conv')
qed

lemma Comp_geocoding_caches:
  assumes "Comprehensive_get_country_with_geocoding e d lat lon m = (Inr r, d')"
  shows "map_of (geocoding_cache d') (format_fixed 2 lat, format_fixed 2 lon) = Some r"
proof (cases "map_of (geocoding_cache d) (format_fixed 2 lat, format_fixed 2 lon)")
  case (Some v)
  with assms show ?thesis by (simp add: Comp_geocoding_hit[OF Some])
next
  case None
  from Comp_attempts_spec[of e "(format_fixed 2 lat, format_fixed 2 lon)" lat lon m 0 d]
  obtain evs r' where
    "Comprehensive_attempts e (format_fixed 2 lat, format_fixed 2 lon) lat lon m 0 d =
      (r', d\<lparr>geocoding_cache :=
              (case r' of Inr v \<Rightarrow>
                 AList.update (format_fixed 2 lat, format_fixed 2 lon) v (geocoding_cache d)
               | Inl x \<Rightarrow> geocoding_cache d),
            effects := effects d @ evs\<rparr>)"
    by (elim exE conjE)
  with assms show ?thesis
    unfolding Comp_geocoding_miss[OF None] by (auto simp: update_conv')
qed

text \<open>
  Claim C1, as stated, fails: a lookup that misses the cache retries on a timeout or a
  service error, so the service is called more than once for one key. Against a service
  that always times out and from an empty cache, one call of
  \<open>CountryDetector.get_country_with_geocoding\<close> with \<open>max_retries = 3\<close> sends three
  requests for the same point, and one call of
  \<open>ComprehensiveCountryDetector.get_country_from_coordinates\<close> at (0, 160) sends two.
\<close>

theorem one_lookup_many_requests:
  "geocoding_cache (CountryDetector_init offline_env True) = [] \<and>
   effects (snd (CountryDetector_get_country_with_geocoding offline_env
      (CountryDetector_init offline_env True) (Fin 10) (Fin 20) 3))
     = [Sleep (1 / 5), Reverse (Fin 10) (Fin 20), Sleep 1,
        Sleep (1 / 5), Reverse (Fin 10) (Fin 20), Sleep 2,
        Sleep (1 / 5), Reverse (Fin 10) (Fin 20)] \<and>
   requests_for 3 (format_fixed 3 (Fin 10), format_fixed 3 (Fin 20))
     (effects (snd (CountryDetector_get_country_with_geocoding offline_env
        (CountryDetector_init offline_env True) (Fin 10) (Fin 20) 3))) = 3 \<and>
   geocoding_cache (Comprehensive_init offline_env True None) = [] \<and>
   requests_for 2 (format_fixed 2 (Fin 0), format_fixed 2 (Fin 160))
     (effects (snd (Comprehensive_get_country_from_coordinates offline_env
        (Comprehensive_init offline_env True None) (PyFloat (Fin 0)) (PyFloat (Fin 160)))))
     = 2"
  by (simp add: CountryDetector_get_country_with_geocoding_def CountryDetector_init_def
        Comprehensive_get_country_from_coordinates_def
        Comprehensive_get_country_with_geocoding_def Comprehensive_init_def
        open_pacific_uncertain
        offline_env_def CountryDetector_attempts.simps Comprehensive_attempts.simps
        call_reverse_def do_sleep_def cache_failure_def round_half_even_def
        requests_for_def)

text \<open>
  Claim C1, amended. In any run of lookups on one detector, the geocoding service is
  called for a rounded key only by the first lookup of that key, which calls it at most
  \<open>max_retries\<close> times: over the whole run the requests for a key that was not cached
  at the start number at most the largest \<open>max_retries\<close> of the run, and there is no
  request at all for a key that was cached at the start. A lookup that returns leaves its
  result, \<open>None\<close> included, in the cache under the key.
\<close>

theorem at_most_one_lookup_per_key:
  assumes "\<forall>c\<in>set calls. max_retries_of 3 c \<le> M"
    and "\<forall>c\<in>set calls. max_retries_of 2 c \<le> M'"
  shows "requests_for 3 k (effects (run_calls (CountryDetector_call e) d calls))
           \<le> requests_for 3 k (effects d)
               + (if map_of (geocoding_cache d) k = None then nat M else 0) \<and>
         requests_for 2 k (effects (run_calls (Comprehensive_call e) d calls))
           \<le> requests_for 2 k (effects d)
               + (if map_of (geocoding_cache d) k = None then nat M' else 0) \<and>
         (CountryDetector_get_country_with_geocoding e d lat lon m = (Inr r, d') \<longrightarrow>
            map_of (geocoding_cache d') (format_fixed 3 lat, format_fixed 3 lon) = Some r) \<and>
         (Comprehensive_get_country_with_geocoding e d lat lon m = (Inr r, d') \<longrightarrow>
            map_of (geocoding_cache d') (format_fixed 2 lat, format_fixed 2 lon) = Some r)"
proof (intro conjI impI)
  show "requests_for 3 k (effects (run_calls (CountryDetector_call e) d calls))
           \<le> requests_for 3 k (effects d)
               + (if map_of (geocoding_cache d) k = None then nat M else 0)"
  proof (rule run_calls_bound)
    show "\<forall>c\<in>set calls. \<forall>d. call_ok 3 M d (CountryDetector_call e d c)"
      using assms(1) CD_call_ok by simp
  qed
  show "requests_for 2 k (effects (run_calls (Comprehensive_call e) d calls))
           \<le> requests_for 2 k (effects d)
               + (if map_of (geocoding_cache d) k = None then nat M' else 0)"
  proof (rule run_calls_bound)
    show "\<forall>c\<in>set calls. \<forall>d. call_ok 2 M' d (Comprehensive_call e d c)"
      using assms(2) Comp_call_ok by simp
  qed
  show "map_of (geocoding_cache d') (format_fixed 3 lat, format_fixed 3 lon) = Some r"
    if "CountryDetector_get_country_with_geocoding e d lat lon m = (Inr r, d')"
    using that by (rule CD_geocoding_caches)
  show "map_of (geocoding_cache d') (format_fixed 2 lat, format_fixed 2 lon) = Some r"
    if "Comprehensive_get_country_with_geocoding e d lat lon m = (Inr r, d')"
    using that by (rule Comp_geocoding_caches)
qed

theorem at_most_one_lookup_per_key_witness:
  "max_retries_of 3 (Resolve (PyFloat (Fin 10)) (PyFloat (Fin 20))) \<le> 3 \<and>
   max_retries_of 3 (Geocode (Fin 10) (Fin 20) 3) \<le> 3 \<and>
   max_retries_of 2 (Resolve (PyFloat (Fin 10)) (PyFloat (Fin 20))) \<le> 3 \<and>
   max_retries_of 2 (Geocode (Fin 10) (Fin 20) 3) \<le> 3 \<and>
   map_of (geocoding_cache (CountryDetector_init offline_env True))
     (format_fixed 3 (Fin 10), format_fixed 3 (Fin 20)) = None \<and>
   requests_for 3 (format_fixed 3 (Fin 10), format_fixed 3 (Fin 20))
     (effects (CountryDetector_init offline_env True)) = 0 \<and>
   requests_for 3 (format_fixed 3 (Fin 10), format_fixed 3 (Fin 20))
     (effects (run_calls (CountryDetector_call offline_env)
        (CountryDetector_init offline_env True)
        [Resolve (PyFloat (Fin 10)) (PyFloat (Fin 20)), Geocode (Fin 10) (Fin 20) 3,
         Resolve (PyFloat (Fin 10)) (PyFloat (Fin 20))])) \<le> 3 \<and>
   requests_for 3 (format_fixed 3 (Fin 10), format_fixed 3 (Fin 20))
     (effects (run_calls (CountryDetector_call offline_env)
        (CountryDetector_init offline_env True)
        [Resolve (PyFloat (Fin 10)) (PyFloat (Fin 20)), Geocode (Fin 10) (Fin 20) 3,
         Resolve (PyFloat (Fin 10)) (PyFloat (Fin 20))])) = 3 \<and>
   map_of (geocoding_cache (snd (CountryDetector_get_country_with_geocoding offline_env
        (CountryDetector_init offline_env True) (Fin 10) (Fin 20) 3)))
     (format_fixed 3 (Fin 10), format_fixed 3 (Fin 20)) = Some None"
proof -
  let ?d = "CountryDetector_init offline_env True"
  let ?calls = "[Resolve (PyFloat (Fin 10)) (PyFloat (Fin 20)), Geocode (Fin 10) (Fin 20) 3,
         Resolve (PyFloat (Fin 10)) (PyFloat (Fin 20))]"
  let ?k = "(format_fixed 3 (Fin 10), format_fixed 3 (Fin 20))"
  have h1: "\<forall>c\<in>set ?calls. max_retries_of 3 c \<le> 3" by simp
  have h2: "\<forall>c\<in>set ?calls. max_retries_of 2 c \<le> 3" by simp
  have d0: "map_of (geocoding_cache ?d) ?k = None" "requests_for 3 ?k (effects ?d) = 0"
    by (simp_all add: CountryDetector_init_def)
  have ev: "CountryDetector_get_country_with_geocoding offline_env ?d (Fin 10) (Fin 20) 3 =
   (Inr None,
    \<lparr>use_geocoding = True,
     geocoding_cache = [((FNum False 10000, FNum False 20000), None)],
     cache_file = None,
     effects = [Sleep (1 / 5), Reverse (Fin 10) (Fin 20), Sleep 1,
                Sleep (1 / 5), Reverse (Fin 10) (Fin 20), Sleep 2,
                Sleep (1 / 5), Reverse (Fin 10) (Fin 20)]\<rparr>)"
    by (simp add: CountryDetector_get_country_with_geocoding_def CountryDetector_init_def
        offline_env_def CountryDetector_attempts.simps call_reverse_def do_sleep_def
        cache_failure_def round_half_even_def)
  note t = at_most_one_lookup_per_key[OF h1 h2, of ?k offline_env ?d "Fin 10" "Fin 20" 3
      None "snd (CountryDetector_get_country_with_geocoding offline_env ?d (Fin 10) (Fin 20) 3)"]
  from t have le: "requests_for 3 ?k (effects (run_calls (CountryDetector_call offline_env)
        ?d ?calls)) \<le> requests_for 3 ?k (effects ?d)
               + (if map_of (geocoding_cache ?d) ?k = None then nat 3 else 0)"
    by (elim conjE)
  from t have "CountryDetector_get_country_with_geocoding offline_env ?d (Fin 10) (Fin 20) 3
      = (Inr None,
         snd (CountryDetector_get_country_with_geocoding offline_env ?d (Fin 10) (Fin 20) 3))
    \<longrightarrow> map_of (geocoding_cache
        (snd (CountryDetector_get_country_with_geocoding offline_env ?d (Fin 10) (Fin 20) 3)))
        ?k = Some None"
    by (elim conjE)
  then have cached: "map_of (geocoding_cache
        (snd (CountryDetector_get_country_with_geocoding offline_env ?d (Fin 10) (Fin 20) 3)))
        ?k = Some None"
    by (simp add: ev)
  have k: "format_fixed 3 (Fin 10) = FNum False 10000" "format_fixed 3 (Fin 20) = FNum False 20000"
    by (simp_all add: round_half_even_def)
  have u: "use_geocoding ?d" by (simp add: CountryDetector_init_def offline_env_def)
  let ?d1 = "\<lparr>use_geocoding = True,
     geocoding_cache = [((FNum False 10000, FNum False 20000), None)],
     cache_file = None,
     effects = [Sleep (1 / 5), Reverse (Fin 10) (Fin 20), Sleep 1,
                Sleep (1 / 5), Reverse (Fin 10) (Fin 20), Sleep 2,
                Sleep (1 / 5), Reverse (Fin 10) (Fin 20)]\<rparr>"
  have c1: "CountryDetector_call offline_env ?d
      (Resolve (PyFloat (Fin 10)) (PyFloat (Fin 20))) = (None, ?d1)"
    by (simp add: CountryDetector_get_country_from_coordinates_def u ev)
  have hit: "CountryDetector_get_country_with_geocoding offline_env ?d1 (Fin 10) (Fin 20) 3
      = (Inr None, ?d1)"
    by (simp add: CountryDetector_get_country_with_geocoding_def round_half_even_def)
  have c2: "CountryDetector_call offline_env ?d1 (Geocode (Fin 10) (Fin 20) 3) = (None, ?d1)"
    by (simp add: hit)
  have c3: "CountryDetector_call offline_env ?d1
      (Resolve (PyFloat (Fin 10)) (PyFloat (Fin 20))) = (None, ?d1)"
    by (simp add: CountryDetector_get_country_from_coordinates_def hit)
  have run: "requests_for 3 ?k (effects (run_calls (CountryDetector_call offline_env)
        ?d ?calls)) = 3"
  proof -
    have "run_calls (CountryDetector_call offline_env) ?d ?calls = ?d1"
      by (simp only: run_calls.simps c1 c2 c3 prod.case option.case)
    then show ?thesis by (simp add: requests_for_def round_half_even_def)
  qed
  from le d0 cached run show ?thesis by simp
qed

end
